theory Spec2Isabelle
  imports Main
begin

chapter \<open>The embedding\<close>

section \<open>Exceptions\<close>

text \<open>
  Python exceptions that the modelled code can raise itself are constructors of their own;
  \<open>Raised msg\<close> is an exception raised by a collaborator (resolver, HTTP stack, writer,
  resizer, file system), carrying the text that \<open>str(err)\<close> yields.  All of them are
  instances of Python's \<open>Exception\<close> class, which is what the \<open>except Exception\<close>
  clauses of the source catch.
\<close>

datatype error =
    ValueError string
  | TypeError string
  | UnboundLocalError string
  | IndexError string
  | AttributeError string
  | Raised string

text \<open>The text of \<open>str(err)\<close>; for an unbound local variable it names the variable.\<close>

fun str_of_error :: "error \<Rightarrow> string" where
  "str_of_error (ValueError msg) = msg"
| "str_of_error (TypeError msg) = msg"
| "str_of_error (UnboundLocalError name) =
     ''cannot access local variable '' @ [CHR 0x27] @ name @ [CHR 0x27]
       @ '' where it is not associated with a value''"
| "str_of_error (IndexError msg) = msg"
| "str_of_error (AttributeError msg) = msg"
| "str_of_error (Raised msg) = msg"

section \<open>Key encoding (downloader.py, compute\_key)\<close>

definition digit_char :: "nat \<Rightarrow> char" where
  "digit_char d = ''0123456789'' ! d"

fun digits :: "nat \<Rightarrow> string" where
  "digits n = (if n < 10 then [digit_char n] else digits (n div 10) @ [digit_char (n mod 10)])"

definition zero_pad :: "nat \<Rightarrow> string \<Rightarrow> string" where
  "zero_pad width s = replicate (width - length s) CHR ''0'' @ s"

text \<open>
  Python's \<open>format(n, "0{width}d")\<close>: the decimal digits of \<open>n\<close>, filled with zeros on the
  left up to a minimum of \<open>width\<close> characters; a minus sign counts towards the width and
  stays in front of the zeros.  The width is a minimum: longer numbers are not cut.
\<close>

definition format_0d :: "nat \<Rightarrow> int \<Rightarrow> string" where
  "format_0d width n =
     (if n < 0 then CHR ''-'' # zero_pad (width - 1) (digits (nat (- n)))
      else zero_pad width (digits (nat n)))"

text \<open>
  \<open>compute_key\<close> on Python integers.  With a negative \<open>oom_sample_per_shard\<close> the power
  \<open>10 ** oom_sample_per_shard\<close> is a float and the format code \<open>d\<close> raises ValueError;
  with a negative \<open>key_format\<close> the format specifier itself is invalid (ValueError).
\<close>

definition compute_key :: "int \<Rightarrow> int \<Rightarrow> int \<Rightarrow> int \<Rightarrow> error + string" where
  "compute_key key shard_id oom_sample_per_shard oom_shard_count =
     (if oom_sample_per_shard < 0
      then Inl (ValueError ''Unknown format code d for object of type float'')
      else
        let true_key = (10 ^ nat oom_sample_per_shard) * shard_id + key;
            key_format = oom_sample_per_shard + oom_shard_count
        in if key_format < 0 then Inl (ValueError ''Invalid format specifier'')
           else Inr (format_0d (nat key_format) true_key))"

text \<open>Reading a digit string back, used to state that keys are numeric and distinct.\<close>

definition isdigit :: "char \<Rightarrow> bool" where
  "isdigit c = (c \<in> set ''0123456789'')"

definition digit_val :: "char \<Rightarrow> nat" where
  "digit_val c = of_char c - 48"

definition int_of_str :: "string \<Rightarrow> nat" where
  "int_of_str s = foldl (\<lambda>a c. 10 * a + digit_val c) 0 s"

section \<open>DNS resolution (downloader.py, resolve\_domain)\<close>

definition PUBLIC_DNS_SERVERS :: "string list" where
  "PUBLIC_DNS_SERVERS =
     [''8.8.8.8'', ''8.8.4.4'', ''1.1.1.1'', ''9.9.9.9'', ''1.0.0.1'',
      ''208.67.222.222'', ''208.67.220.220'']"

text \<open>Python's \<open>needle in haystack\<close> on strings.\<close>

fun str_contains :: "string \<Rightarrow> string \<Rightarrow> bool" where
  "str_contains needle [] = (needle = [])"
| "str_contains needle (c # cs) =
     (take (length needle) (c # cs) = needle \<or> str_contains needle cs)"

definition parse_dns_error :: "string \<Rightarrow> string" where
  "parse_dns_error error =
     (if str_contains ''The DNS query name does not exist'' error
        then ''The DNS query name does not exist.''
      else if str_contains ''The DNS response does not contain an answer to the question'' error
        then ''The DNS response does not contain an answer to the question.''
      else if str_contains ''All nameservers failed to answer the query data.whicdn.com. IN A'' error
        then ''All nameservers failed to answer the query data.whicdn.com. IN A.''
      else error)"

text \<open>
  The random source is a stream of raw draws \<open>rnd\<close> read at a position; the \<open>i\<close>-th call
  of \<open>random.choice(PUBLIC_DNS_SERVERS)\<close> returns the pool member picked by the \<open>i\<close>-th
  draw.
\<close>

definition random_choice :: "(nat \<Rightarrow> nat) \<Rightarrow> nat \<Rightarrow> string" where
  "random_choice rnd i = PUBLIC_DNS_SERVERS ! (rnd i mod length PUBLIC_DNS_SERVERS)"

text \<open>
  The selection loop \<open>while selected_dns_server is None or selected_dns_server in
  dns_blacklist\<close>: it draws until a server outside the blacklist comes up and returns
  it with the next position of the random source.  The loop need not end; \<open>None\<close> is the
  run that draws forever.
\<close>

partial_function (option) select_dns_server ::
  "(nat \<Rightarrow> nat) \<Rightarrow> string set \<Rightarrow> nat \<Rightarrow> (string \<times> nat) option" where
  "select_dns_server rnd dns_blacklist i =
     (let selected_dns_server = random_choice rnd i
      in if selected_dns_server \<in> dns_blacklist
         then select_dns_server rnd dns_blacklist (Suc i)
         else Some (selected_dns_server, Suc i))"

text \<open>
  What a call of \<open>resolve_domain\<close> leaves behind: the returned pair \<open>(ok, ip_or_err)\<close>,
  the contents of the blacklist set object it was given (the set is mutated in place by
  \<open>dns_blacklist.add\<close>), the servers it assigned to \<open>resolver.nameservers\<close> in order (one
  per resolution attempt), and the position of the random source.
\<close>

record resolution =
  ok :: bool
  ip_or_err :: string
  blacklist :: "string set"
  selections :: "string list"
  rng_pos :: nat

text \<open>
  The resolver collaborator: \<open>resolver nameserver domain\<close> is \<open>Inr ip\<close> when
  \<open>resolver.resolve(domain)\<close> with that nameserver answers (\<open>answer[0].to_text()\<close>), and
  \<open>Inl text\<close> when it raises an exception whose \<open>str\<close> is \<open>text\<close>.  The domain is
  \<open>None\<close> when the URL has no host name.
\<close>

type_synonym resolver = "string \<Rightarrow> string option \<Rightarrow> string + string"

function resolve_domain ::
  "resolver \<Rightarrow> (nat \<Rightarrow> nat) \<Rightarrow> string option \<Rightarrow> string set \<Rightarrow> int \<Rightarrow> nat \<Rightarrow> string list
   \<Rightarrow> resolution option" where
  "resolve_domain resolver rnd domain dns_blacklist num_retries i trace =
     (case select_dns_server rnd dns_blacklist i of
        None \<Rightarrow> None
      | Some (selected_dns_server, i') \<Rightarrow>
          (case resolver selected_dns_server domain of
             Inr ip \<Rightarrow>
               Some \<lparr>ok = True, ip_or_err = ip, blacklist = dns_blacklist,
                     selections = trace @ [selected_dns_server], rng_pos = i'\<rparr>
           | Inl e \<Rightarrow>
               if num_retries > 0
               then resolve_domain resolver rnd domain (insert selected_dns_server dns_blacklist)
                      (num_retries - 1) i' (trace @ [selected_dns_server])
               else Some \<lparr>ok = False, ip_or_err = parse_dns_error e, blacklist = dns_blacklist,
                          selections = trace @ [selected_dns_server], rng_pos = i'\<rparr>))"
  by pat_completeness auto
termination
  by (relation "measure (\<lambda>(resolver, rnd, domain, dns_blacklist, num_retries, i, trace).
        nat num_retries)") auto

text \<open>
  The state of the Python process that outlives a call: the set object created once, at
  function definition time, for the default value of the parameter \<open>dns_blacklist\<close>, and
  the position of the random source.  A call that passes no blacklist works on the default
  object, and what it adds stays in it.
\<close>

record process =
  default_dns_blacklist :: "string set"
  rng :: nat

definition resolve_domain_default ::
  "resolver \<Rightarrow> (nat \<Rightarrow> nat) \<Rightarrow> string option \<Rightarrow> int \<Rightarrow> process
   \<Rightarrow> ((bool \<times> string) \<times> process) option" where
  "resolve_domain_default resolver rnd domain num_retries p =
     (case resolve_domain resolver rnd domain (default_dns_blacklist p) num_retries (rng p) [] of
        None \<Rightarrow> None
      | Some r \<Rightarrow>
          Some ((ok r, ip_or_err r), p\<lparr>default_dns_blacklist := blacklist r, rng := rng_pos r\<rparr>))"

text \<open>
  A random source is fair when every pool position keeps coming up; a concrete one draws
  the positions in turn.  \<open>always_fails\<close> is a resolver for which every lookup times out.
\<close>

definition fair :: "(nat \<Rightarrow> nat) \<Rightarrow> bool" where
  "fair rnd = (\<forall>i k. k < length PUBLIC_DNS_SERVERS
                 \<longrightarrow> (\<exists>j\<ge>i. rnd j mod length PUBLIC_DNS_SERVERS = k))"

definition round_robin :: "nat \<Rightarrow> nat" where
  "round_robin i = i"

definition always_fails :: resolver where
  "always_fails nameserver domain = Inl ''The resolution lifetime expired''"

definition unreachable_host :: "string option" where
  "unreachable_host = Some ''unreachable.example''"

section \<open>Fetching one image (downloader.py, download\_image)\<close>

subsection \<open>String operations of the standard library\<close>

definition str_option :: "string option \<Rightarrow> string" where
  "str_option x = (case x of None \<Rightarrow> ''None'' | Some s \<Rightarrow> s)"

definition isspace :: "char \<Rightarrow> bool" where
  "isspace c = (c \<in> set [CHR 0x20, CHR 0x09, CHR 0x0A, CHR 0x0B, CHR 0x0C, CHR 0x0D,
                           CHR 0x1C, CHR 0x1D, CHR 0x1E, CHR 0x1F])"

definition strip :: "string \<Rightarrow> string" where
  "strip s = rev (dropWhile isspace (rev (dropWhile isspace s)))"

definition lower_char :: "char \<Rightarrow> char" where
  "lower_char c =
     (let n = (of_char c :: nat) in if 65 \<le> n \<and> n \<le> 90 then char_of (n + 32) else c)"

definition lower :: "string \<Rightarrow> string" where
  "lower s = map lower_char s"

fun split_all :: "char \<Rightarrow> string \<Rightarrow> string list" where
  "split_all sep [] = [[]]"
| "split_all sep (c # cs) =
     (if c = sep then [] # split_all sep cs
      else (case split_all sep cs of
              [] \<Rightarrow> [[c]]
            | part # parts \<Rightarrow> (c # part) # parts))"

definition split_once :: "char \<Rightarrow> string \<Rightarrow> string list" where
  "split_once sep s =
     (if sep \<in> set s
      then [takeWhile (\<lambda>c. c \<noteq> sep) s, tl (dropWhile (\<lambda>c. c \<noteq> sep) s)]
      else [s])"

function replace_from :: "string \<Rightarrow> string \<Rightarrow> string \<Rightarrow> string" where
  "replace_from old new [] = []"
| "replace_from old new (c # cs) =
     (if old \<noteq> [] \<and> take (length old) (c # cs) = old
      then new @ replace_from old new (drop (length old) (c # cs))
      else c # replace_from old new cs)"
  by pat_completeness auto
termination
  by (relation "measure (\<lambda>(old, new, s). length s)") (auto simp: neq_Nil_conv)

definition str_replace :: "string \<Rightarrow> string \<Rightarrow> string \<Rightarrow> string" where
  "str_replace s old new =
     (if old = [] then new @ concat (map (\<lambda>c. c # new) s) else replace_from old new s)"

subsection \<open>X-Robots-Tag\<close>

text \<open>
  \<open>headers\<close> is the list \<open>headers.get_all("X-Robots-Tag", [])\<close>.  Splitting a string
  never raises, so the \<open>except\<close> clause inside the loop is never entered.
\<close>

fun is_disallowed :: "string list \<Rightarrow> string option \<Rightarrow> string list \<Rightarrow> bool" where
  "is_disallowed [] user_agent_token disallowed_header_directives = False"
| "is_disallowed (values # rest) user_agent_token disallowed_header_directives =
     (let uatoken_directives = split_once CHR '':'' values;
          directives = map (\<lambda>x. lower (strip x)) (split_all CHR '','' (last uatoken_directives));
          ua_token = (if length uatoken_directives = 2
                      then Some (lower (hd uatoken_directives)) else None)
      in if (ua_token = None \<or> ua_token = user_agent_token)
            \<and> list_ex (\<lambda>x. x \<in> set disallowed_header_directives) directives
         then True
         else is_disallowed rest user_agent_token disallowed_header_directives)"

subsection \<open>download\_image\<close>

text \<open>
  The network as the function sees it: \<open>urlparse_hostname url\<close> is
  \<open>urllib.parse.urlparse(url).hostname\<close> (\<open>None\<close> for a URL without host, an exception
  for a malformed one); \<open>urlopen request timeout\<close> is the response or the exception of
  building and opening the request; a response carries its X-Robots-Tag headers and the
  result of \<open>r.read()\<close>.
\<close>

record request =
  full_url :: string
  headers :: "(string \<times> string option) list"

record response =
  x_robots_tag :: "string list"
  content :: "error + string"

record network =
  urlparse_hostname :: "string \<Rightarrow> error + string option"
  urlopen :: "request \<Rightarrow> int \<Rightarrow> error + response"
  random_source :: "nat \<Rightarrow> nat"

text \<open>The returned triple \<open>(key, img_stream, err)\<close>.\<close>

type_synonym fetch_outcome = "int \<times> string option \<times> string option"

definition user_agent_string :: "string option \<Rightarrow> string" where
  "user_agent_string user_agent_token =
     ''Mozilla/5.0 (X11; Ubuntu; Linux x86_64; rv:72.0) Gecko/20100101 Firefox/72.0''
     @ (case user_agent_token of
          None \<Rightarrow> []
        | Some token \<Rightarrow>
            if token = [] then []
            else '' (compatible; '' @ token @ ''; +https://github.com/rom1504/img2dataset)'')"

text \<open>
  The local variables that the block \<open>if resolver is not None: ...\<close> leaves behind:
  \<open>url\<close>, rewritten or not, and \<open>domain\<close>, which is bound (\<open>Some\<close>) only when the block
  ran.  The block can also return early or raise.
\<close>

record locals =
  local_url :: string
  local_domain :: "string option option"

datatype resolved = Return fetch_outcome | Raise error | Locals locals

definition resolve_block ::
  "network \<Rightarrow> int \<Rightarrow> string \<Rightarrow> resolver option \<Rightarrow> int \<Rightarrow> process
   \<Rightarrow> (resolved \<times> process) option" where
  "resolve_block net key url0 resolver dns_num_retries p =
     (case resolver of
        None \<Rightarrow> Some (Locals \<lparr>local_url = url0, local_domain = None\<rparr>, p)
      | Some res \<Rightarrow>
          (case urlparse_hostname net url0 of
             Inl e \<Rightarrow> Some (Raise e, p)
           | Inr hostname \<Rightarrow>
               (case resolve_domain_default res (random_source net) hostname dns_num_retries p of
                  None \<Rightarrow> None
                | Some ((success, answer), p') \<Rightarrow>
                    if \<not> success
                    then Some (Return (key, None,
                           Some (''DNS resolution failed: '' @ answer @ '' for ''
                                 @ str_option hostname)), p')
                    else if answer \<noteq> []
                    then (case hostname of
                            None \<Rightarrow>
                              Some (Raise (TypeError
                                ''replace() argument 1 must be str, not None''), p')
                          | Some d \<Rightarrow>
                              Some (Locals \<lparr>local_url = str_replace url0 d answer,
                                            local_domain = Some hostname\<rparr>, p'))
                    else Some (Locals \<lparr>local_url = url0, local_domain = Some hostname\<rparr>, p'))))"

text \<open>
  Building the request: the URL is \<open>original_url\<close>; the header dictionary reads the
  local variable \<open>domain\<close>, which raises UnboundLocalError when it was never bound.
\<close>

definition build_request :: "string \<Rightarrow> string option \<Rightarrow> locals \<Rightarrow> error + request" where
  "build_request original_url user_agent_token l =
     (case local_domain l of
        None \<Rightarrow> Inl (UnboundLocalError ''domain'')
      | Some host \<Rightarrow>
          Inr \<lparr>full_url = original_url,
               headers = [(''User-Agent'', Some (user_agent_string user_agent_token)),
                          (''Host'', host)]\<rparr>)"

definition fetch ::
  "network \<Rightarrow> int \<Rightarrow> request \<Rightarrow> int \<Rightarrow> string option \<Rightarrow> string list option
   \<Rightarrow> error + fetch_outcome" where
  "fetch net key req timeout user_agent_token disallowed_header_directives =
     (case urlopen net req timeout of
        Inl e \<Rightarrow> Inl e
      | Inr r \<Rightarrow>
          if (case disallowed_header_directives of
                None \<Rightarrow> False
              | Some ds \<Rightarrow> ds \<noteq> [] \<and> is_disallowed (x_robots_tag r) user_agent_token ds)
          then Inr (key, None, Some ''Use of image disallowed by X-Robots-Tag directive'')
          else (case content r of
                  Inl e \<Rightarrow> Inl e
                | Inr bytes \<Rightarrow> Inr (key, Some bytes, None)))"

text \<open>
  The body of the \<open>try\<close> statement, then the function with its \<open>except Exception\<close>
  clause, which turns every exception into \<open>(key, None, str(err))\<close>.
\<close>

definition download_image_try ::
  "network \<Rightarrow> int \<times> string \<Rightarrow> int \<Rightarrow> string option \<Rightarrow> string list option
   \<Rightarrow> resolver option \<Rightarrow> int \<Rightarrow> process \<Rightarrow> ((error + fetch_outcome) \<times> process) option" where
  "download_image_try net row timeout user_agent_token disallowed_header_directives
       resolver dns_num_retries p =
     (let key = fst row; original_url = snd row
      in case resolve_block net key original_url resolver dns_num_retries p of
           None \<Rightarrow> None
         | Some (Return out, p') \<Rightarrow> Some (Inr out, p')
         | Some (Raise e, p') \<Rightarrow> Some (Inl e, p')
         | Some (Locals l, p') \<Rightarrow>
             (case build_request original_url user_agent_token l of
                Inl e \<Rightarrow> Some (Inl e, p')
              | Inr req \<Rightarrow>
                  Some (fetch net key req timeout user_agent_token
                          disallowed_header_directives, p')))"

definition download_image ::
  "network \<Rightarrow> int \<times> string \<Rightarrow> int \<Rightarrow> string option \<Rightarrow> string list option
   \<Rightarrow> resolver option \<Rightarrow> int \<Rightarrow> process \<Rightarrow> (fetch_outcome \<times> process) option" where
  "download_image net row timeout user_agent_token disallowed_header_directives
       resolver dns_num_retries p =
     (case download_image_try net row timeout user_agent_token disallowed_header_directives
             resolver dns_num_retries p of
        None \<Rightarrow> None
      | Some (Inr out, p') \<Rightarrow> Some (out, p')
      | Some (Inl err, p') \<Rightarrow> Some ((fst row, None, Some (str_of_error err)), p'))"

text \<open>
  The request that a call hands to \<open>urlopen\<close>, if it gets that far: an observation of
  the same run, used to state which URL is requested.
\<close>

definition issued_request ::
  "network \<Rightarrow> int \<times> string \<Rightarrow> string option \<Rightarrow> resolver option \<Rightarrow> int \<Rightarrow> process
   \<Rightarrow> request option" where
  "issued_request net row user_agent_token resolver dns_num_retries p =
     (case resolve_block net (fst row) (snd row) resolver dns_num_retries p of
        Some (Locals l, p') \<Rightarrow>
          (case build_request (snd row) user_agent_token l of
             Inr req \<Rightarrow> Some req
           | Inl e \<Rightarrow> None)
      | _ \<Rightarrow> None)"

text \<open>
  A network that serves one image under its original URL only, and a resolver that
  answers every query with a given address.
\<close>

definition example_url :: string where
  "example_url = ''http://example.com/cat.jpg''"

definition example_net :: network where
  "example_net =
     \<lparr>urlparse_hostname = (\<lambda>u. if u = example_url then Inr (Some ''example.com'') else Inr None),
      urlopen = (\<lambda>req timeout.
        if full_url req = example_url
        then Inr \<lparr>x_robots_tag = [], content = Inr ''JFIF''\<rparr>
        else Inl (Raised ''HTTP Error 404: Not Found'')),
      random_source = round_robin\<rparr>"

definition answers :: "string \<Rightarrow> resolver" where
  "answers ip nameserver host = Inr ip"

text \<open>A network in which one URL is known and nothing can be reached.\<close>

definition unreachable_url :: string where
  "unreachable_url = ''http://unreachable.example/a.jpg''"

definition unreachable_net :: network where
  "unreachable_net =
     \<lparr>urlparse_hostname = (\<lambda>u. if u = unreachable_url then Inr unreachable_host else Inr None),
      urlopen = (\<lambda>req timeout. Inl (Raised ''Connection refused'')),
      random_source = round_robin\<rparr>"

text \<open>
  \<open>download_image_with_retry\<close>: the loop \<open>for _ in range(retries + 1)\<close> as a recursion
  on the number of rounds left, with the triple of the last round.  When the loop body
  never ran, the final \<open>return key, None, err\<close> reads unbound variables.
\<close>

fun retry_rounds ::
  "nat \<Rightarrow> fetch_outcome option \<Rightarrow> network \<Rightarrow> int \<times> string \<Rightarrow> int \<Rightarrow> string option
   \<Rightarrow> string list option \<Rightarrow> resolver option \<Rightarrow> int \<Rightarrow> process
   \<Rightarrow> ((error + fetch_outcome) \<times> process) option" where
  "retry_rounds 0 previous net row timeout user_agent_token disallowed_header_directives
       resolver dns_num_retries p =
     Some (case previous of
             None \<Rightarrow> Inl (UnboundLocalError ''key'')
           | Some (key, img_stream, err) \<Rightarrow> Inr (key, None, err), p)"
| "retry_rounds (Suc n) previous net row timeout user_agent_token disallowed_header_directives
       resolver dns_num_retries p =
     (case download_image net row timeout user_agent_token disallowed_header_directives
             resolver dns_num_retries p of
        None \<Rightarrow> None
      | Some ((key, img_stream, err), p') \<Rightarrow>
          if img_stream \<noteq> None then Some (Inr (key, img_stream, err), p')
          else retry_rounds n (Some (key, img_stream, err)) net row timeout user_agent_token
                 disallowed_header_directives resolver dns_num_retries p')"

definition download_image_with_retry ::
  "network \<Rightarrow> int \<times> string \<Rightarrow> int \<Rightarrow> int \<Rightarrow> string option \<Rightarrow> string list option
   \<Rightarrow> resolver option \<Rightarrow> int \<Rightarrow> process \<Rightarrow> ((error + fetch_outcome) \<times> process) option" where
  "download_image_with_retry net row timeout retries user_agent_token
       disallowed_header_directives resolver dns_num_retries p =
     retry_rounds (nat (retries + 1)) None net row timeout user_agent_token
       disallowed_header_directives resolver dns_num_retries p"

section \<open>Processing one shard (downloader.py, Downloader)\<close>

subsection \<open>Data\<close>

text \<open>Cells of the shard table and values of the metadata dictionary.\<close>

datatype pyval = PNone | PStr string | PInt int | PList "pyval list"

text \<open>Python list indexing: negative indices count from the end, out of range raises.\<close>

definition py_index :: "'a list \<Rightarrow> int \<Rightarrow> error + 'a" where
  "py_index xs i =
     (if 0 \<le> i \<and> i < int (length xs) then Inr (xs ! nat i)
      else if i < 0 \<and> - int (length xs) \<le> i then Inr (xs ! nat (int (length xs) + i))
      else Inl (IndexError ''list index out of range''))"

text \<open>\<open>xs.index(x)\<close> where the source has checked, or not, that \<open>x\<close> is in \<open>xs\<close>.\<close>

fun list_index :: "'a list \<Rightarrow> 'a \<Rightarrow> nat option" where
  "list_index [] x = None"
| "list_index (y # ys) x =
     (if y = x then Some 0 else map_option Suc (list_index ys x))"

text \<open>
  The fields of the \<open>Downloader\<close> object that \<open>download_shard\<close> reads.  \<open>resolver\<close>
  is \<open>None\<close> until \<open>_setup_dns_resolver\<close> creates one; of a resolver only the type of
  its cache matters here, which is \<open>cache_type\<close>.
\<close>

record Downloader =
  thread_count :: int
  extract_exif :: bool
  output_folder :: string
  column_list :: "string list"
  number_sample_per_shard :: int
  oom_shard_count :: int
  compute_hash :: "string option"
  verify_hash_type :: "string option"
  blurring_bbox_col :: "string option"
  use_public_dns :: bool
  cache_pool_initialized :: bool
  cache_type :: string
  resolver :: "string option"

text \<open>One call of \<open>sample_writer.write(img, key, caption, meta)\<close>.\<close>

type_synonym write_call = "string option \<times> string \<times> pyval \<times> (string \<rightharpoonup> pyval)"

text \<open>The six values that the resizer returns.\<close>

record resized =
  img :: string
  width :: pyval
  height :: pyval
  original_width :: pyval
  original_height :: pyval
  resize_error :: "string option"

text \<open>
  The collaborators of the loop body.  Each may raise: \<open>writer_write call\<close> is the
  exception of \<open>sample_writer.write\<close>, if any; \<open>resizer\<close> is \<open>self.resizer\<close>;
  \<open>digest name bytes\<close> is \<open>getattr(hashlib, name)(bytes).hexdigest()\<close>; \<open>exif_json\<close> is
  the JSON text of the EXIF tags.
\<close>

record collaborators =
  writer_write :: "write_call \<Rightarrow> error option"
  resizer :: "string \<Rightarrow> pyval \<Rightarrow> error + resized"
  digest :: "string option \<Rightarrow> string \<Rightarrow> error + string"
  exif_json :: "string \<Rightarrow> error + string"

text \<open>The local variables of \<open>download_shard\<close> that the loop body reads.\<close>

record shard_locals =
  shard_id :: int
  shard_to_dl :: "pyval list list"
  oom_sample_per_shard :: int
  caption_indice :: "nat option"
  hash_indice :: "nat option"
  bbox_indice :: "nat option"

text \<open>
  What the loop changes: the three counters, the labels passed to
  \<open>status_dict.increment\<close>, the number of calls of \<open>semaphore.release()\<close>, the calls
  of \<open>sample_writer.write\<close> that returned, and the lines printed by the \<open>except\<close>
  clause.
\<close>

record shard_state =
  successes :: int
  failed_to_download :: int
  failed_to_resize :: int
  status_dict :: "string list"
  released :: int
  written :: "write_call list"
  printed :: "string list"

subsection \<open>The body of the loop\<close>

text \<open>How the \<open>try\<close> block of one iteration ends.\<close>

datatype item_exit = Continue | Fallthrough | Caught error

text \<open>
  The dictionary \<open>meta\<close> as first built: the columns except the verification hash, then
  the fixed entries, which win over a column of the same name.
\<close>

definition meta_columns ::
  "string list \<Rightarrow> pyval list \<Rightarrow> nat option \<Rightarrow> error + (string \<rightharpoonup> pyval)" where
  "meta_columns cols sample_data hash_idx =
     (let kept = filter (\<lambda>i. hash_idx \<noteq> Some i) [0..<length cols]
      in if list_ex (\<lambda>i. length sample_data \<le> i) kept
         then Inl (IndexError ''tuple index out of range'')
         else Inr (map_of (rev (map (\<lambda>i. (cols ! i, sample_data ! i)) kept))))"

definition initial_meta ::
  "Downloader \<Rightarrow> shard_locals \<Rightarrow> pyval list \<Rightarrow> string \<Rightarrow> string option
   \<Rightarrow> error + (string \<rightharpoonup> pyval)" where
  "initial_meta self loc sample_data str_key error_message =
     (case meta_columns (column_list self) sample_data (hash_indice loc) of
        Inl e \<Rightarrow> Inl e
      | Inr cols \<Rightarrow>
          let m = cols(''key'' \<mapsto> PStr str_key,
                       ''status'' \<mapsto> PNone,
                       ''error_message'' \<mapsto> (case error_message of None \<Rightarrow> PNone | Some msg \<Rightarrow> PStr msg),
                       ''width'' \<mapsto> PNone,
                       ''height'' \<mapsto> PNone,
                       ''original_width'' \<mapsto> PNone,
                       ''original_height'' \<mapsto> PNone);
              m1 = (if extract_exif self then m(''exif'' \<mapsto> PNone) else m);
              m2 = (case compute_hash self of None \<Rightarrow> m1 | Some h \<Rightarrow> m1(h \<mapsto> PNone))
          in Inr m2)"

text \<open>\<open>sample_data[i] if i is not None else None\<close>.\<close>

definition optional_cell :: "pyval list \<Rightarrow> nat option \<Rightarrow> error + pyval" where
  "optional_cell sample_data idx =
     (case idx of None \<Rightarrow> Inr PNone | Some i \<Rightarrow> py_index sample_data (int i))"

text \<open>
  The end of the three failure branches: \<open>sample_writer.write(None, str_key, caption,
  meta)\<close>, then \<open>semaphore.release()\<close> and \<open>continue\<close>.
\<close>

definition write_and_continue ::
  "collaborators \<Rightarrow> shard_locals \<Rightarrow> pyval list \<Rightarrow> string \<Rightarrow> (string \<rightharpoonup> pyval)
   \<Rightarrow> shard_state \<Rightarrow> item_exit \<times> shard_state" where
  "write_and_continue c loc sample_data str_key meta st =
     (case optional_cell sample_data (caption_indice loc) of
        Inl e \<Rightarrow> (Caught e, st)
      | Inr caption \<Rightarrow>
          (case writer_write c (None, str_key, caption, meta) of
             Some e \<Rightarrow> (Caught e, st)
           | None \<Rightarrow>
               (Continue, st\<lparr>written := written st @ [(None, str_key, caption, meta)],
                              released := released st + 1\<rparr>)))"

text \<open>
  The hash verification: \<open>Inr True\<close> when the digest of the payload differs from the
  reference value of the row.  Without a payload \<open>img_stream.seek\<close> raises.
\<close>

definition hash_mismatch ::
  "Downloader \<Rightarrow> collaborators \<Rightarrow> shard_locals \<Rightarrow> pyval list \<Rightarrow> string option
   \<Rightarrow> error + bool" where
  "hash_mismatch self c loc sample_data img_stream =
     (case hash_indice loc of
        None \<Rightarrow> Inr False
      | Some i \<Rightarrow>
          (case img_stream of
             None \<Rightarrow> Inl (AttributeError ''NoneType object has no attribute seek'')
           | Some bytes \<Rightarrow>
               (case digest c (verify_hash_type self) bytes of
                  Inl e \<Rightarrow> Inl e
                | Inr test_hash \<Rightarrow>
                    (case py_index sample_data (int i) of
                       Inl e \<Rightarrow> Inl e
                     | Inr reference \<Rightarrow> Inr (PStr test_hash \<noteq> reference)))))"

text \<open>The success branch after the resizer has returned without error.\<close>

definition write_success ::
  "Downloader \<Rightarrow> collaborators \<Rightarrow> shard_locals \<Rightarrow> pyval list \<Rightarrow> string
   \<Rightarrow> (string \<rightharpoonup> pyval) \<Rightarrow> string \<Rightarrow> resized \<Rightarrow> shard_state \<Rightarrow> item_exit \<times> shard_state" where
  "write_success self c loc sample_data str_key meta bytes r st =
     (let st1 = st\<lparr>successes := successes st + 1,
                   status_dict := status_dict st @ [''success'']\<rparr>;
          m1 = (if extract_exif self
                then meta(''exif'' \<mapsto> (case exif_json c bytes of
                                         Inl e \<Rightarrow> PNone
                                       | Inr text \<Rightarrow> PStr text))
                else meta)
      in case (case compute_hash self of
                 None \<Rightarrow> Inr m1
               | Some h \<Rightarrow>
                   (case digest c (Some h) bytes of
                      Inl e \<Rightarrow> Inl e
                    | Inr hex \<Rightarrow> Inr (m1(h \<mapsto> PStr hex)))) of
           Inl e \<Rightarrow> (Caught e, st1)
         | Inr m2 \<Rightarrow>
             let m3 = m2(''status'' \<mapsto> PStr ''success'',
                         ''width'' \<mapsto> width r,
                         ''height'' \<mapsto> height r,
                         ''original_width'' \<mapsto> original_width r,
                         ''original_height'' \<mapsto> original_height r)
             in (case optional_cell sample_data (caption_indice loc) of
                   Inl e \<Rightarrow> (Caught e, st1)
                 | Inr caption \<Rightarrow>
                     (case writer_write c (Some (img r), str_key, caption, m3) of
                        Some e \<Rightarrow> (Caught e, st1)
                      | None \<Rightarrow>
                          (Fallthrough,
                           st1\<lparr>written := written st1
                                  @ [(Some (img r), str_key, caption, m3)]\<rparr>))))"

definition resize_and_write ::
  "Downloader \<Rightarrow> collaborators \<Rightarrow> shard_locals \<Rightarrow> pyval list \<Rightarrow> string
   \<Rightarrow> (string \<rightharpoonup> pyval) \<Rightarrow> string option \<Rightarrow> shard_state \<Rightarrow> item_exit \<times> shard_state" where
  "resize_and_write self c loc sample_data str_key meta img_stream st =
     (case img_stream of
        None \<Rightarrow> (Caught (AttributeError ''NoneType object has no attribute seek''), st)
      | Some bytes \<Rightarrow>
          (case optional_cell sample_data (bbox_indice loc) of
             Inl e \<Rightarrow> (Caught e, st)
           | Inr bbox_list \<Rightarrow>
               (case resizer c bytes bbox_list of
                  Inl e \<Rightarrow> (Caught e, st)
                | Inr r \<Rightarrow>
                    (case resize_error r of
                       Some msg \<Rightarrow>
                         write_and_continue c loc sample_data str_key
                           (meta(''status'' \<mapsto> PStr ''failed_to_resize'',
                                 ''error_message'' \<mapsto> PStr msg))
                           (st\<lparr>failed_to_resize := failed_to_resize st + 1,
                                status_dict := status_dict st @ [msg]\<rparr>)
                     | None \<Rightarrow>
                         write_success self c loc sample_data str_key meta bytes r st))))"

text \<open>The \<open>try\<close> block of one iteration, for the triple that the pool delivered.\<close>

definition item_try ::
  "Downloader \<Rightarrow> collaborators \<Rightarrow> shard_locals \<Rightarrow> fetch_outcome \<Rightarrow> shard_state
   \<Rightarrow> item_exit \<times> shard_state" where
  "item_try self c loc outcome st =
     (let key = fst outcome; img_stream = fst (snd outcome); error_message = snd (snd outcome)
      in case py_index (shard_to_dl loc) key of
           Inl e \<Rightarrow> (Caught e, st)
         | Inr sample_data \<Rightarrow>
             (case compute_key key (shard_id loc) (oom_sample_per_shard loc)
                     (oom_shard_count self) of
                Inl e \<Rightarrow> (Caught e, st)
              | Inr str_key \<Rightarrow>
                  (case initial_meta self loc sample_data str_key error_message of
                     Inl e \<Rightarrow> (Caught e, st)
                   | Inr meta \<Rightarrow>
                       (case error_message of
                          Some msg \<Rightarrow>
                            write_and_continue c loc sample_data str_key
                              (meta(''status'' \<mapsto> PStr ''failed_to_download''))
                              (st\<lparr>failed_to_download := failed_to_download st + 1,
                                   status_dict := status_dict st @ [msg]\<rparr>)
                        | None \<Rightarrow>
                            (case hash_mismatch self c loc sample_data img_stream of
                               Inl e \<Rightarrow> (Caught e, st)
                             | Inr True \<Rightarrow>
                                 write_and_continue c loc sample_data str_key
                                   (meta(''status'' \<mapsto> PStr ''failed_to_download'',
                                         ''error_message'' \<mapsto> PStr ''hash mismatch''))
                                   (st\<lparr>failed_to_download := failed_to_download st + 1,
                                        status_dict := status_dict st @ [''hash mismatch'']\<rparr>)
                             | Inr False \<Rightarrow>
                                 resize_and_write self c loc sample_data str_key meta
                                   img_stream st)))))"

text \<open>
  One iteration: the \<open>try\<close> block, the \<open>except Exception\<close> clause that prints, and the
  \<open>semaphore.release()\<close> after the statement, which a \<open>continue\<close> skips.
\<close>

definition process_item ::
  "Downloader \<Rightarrow> collaborators \<Rightarrow> shard_locals \<Rightarrow> fetch_outcome \<Rightarrow> shard_state
   \<Rightarrow> shard_state" where
  "process_item self c loc outcome st =
     (case item_try self c loc outcome st of
        (Continue, st') \<Rightarrow> st'
      | (Fallthrough, st') \<Rightarrow> st'\<lparr>released := released st' + 1\<rparr>
      | (Caught err, st') \<Rightarrow>
          st'\<lparr>printed := printed st'
                  @ [''Sample '' @ format_0d 0 (fst outcome) @ '' failed to download: ''
                     @ str_of_error err],
               released := released st' + 1\<rparr>)"

text \<open>
  The loop over \<open>thread_pool.imap_unordered\<close>, for the results in the order in which the
  pool delivers them.  A result \<open>Inl e\<close> is a call of the worker function that raised:
  the iterator raises it again in the \<open>for\<close> statement, outside the \<open>try\<close> block, and
  the loop is left.
\<close>

fun consume ::
  "Downloader \<Rightarrow> collaborators \<Rightarrow> shard_locals \<Rightarrow> (error + fetch_outcome) list \<Rightarrow> shard_state
   \<Rightarrow> error option \<times> shard_state" where
  "consume self c loc [] st = (None, st)"
| "consume self c loc (Inl e # rest) st = (Some e, st)"
| "consume self c loc (Inr outcome # rest) st =
     consume self c loc rest (process_item self c loc outcome st)"

subsection \<open>download\_shard and \_\_call\_\_\<close>

text \<open>
  The collaborators of a shard: reading the input file into the rows
  \<open>zip(*(pydict[col] for col in self.column_list))\<close>, constructing and closing the
  writer, \<open>math.ceil(math.log10(n))\<close>, the results that \<open>imap_unordered\<close> delivers for
  \<open>key_url_list\<close> in delivery order, the resolver cache as it is when the loop has
  ended, \<open>write_stats\<close> and \<open>fs.rm\<close>.
\<close>

record stats_report =
  stats_shard_id :: int
  stats_count :: int
  stats_successes :: int
  stats_failed_to_download :: int
  stats_failed_to_resize :: int
  stats_status_dict :: "string list"
  dns_cache_hits :: int
  dns_cache_misses :: int
  dns_cache_size :: int

record shard_env =
  read_shard :: "string \<Rightarrow> error + pyval list list"
  sample_writer_init :: "error option"
  ceil_log10 :: "int \<Rightarrow> error + int"
  pool_results :: "(int \<times> pyval) list \<Rightarrow> (error + fetch_outcome) list"
  loop_collaborators :: collaborators
  sample_writer_close :: "error option"
  lru_cache_size :: nat
  lru_cache_hits :: int
  lru_cache_misses :: int
  write_stats :: "stats_report \<Rightarrow> error option"
  fs_rm :: "string \<Rightarrow> error option"

text \<open>
  What a call of \<open>download_shard\<close> leaves behind: the exception it raised, if any, the
  arguments of its call of \<open>write_stats\<close>, if it made one, the state of the loop, and the
  \<open>Downloader\<close> object.
\<close>

record shard_run =
  raised :: "error option"
  reported :: "stats_report option"
  loop_state :: "shard_state option"
  self_after :: Downloader

definition setup_cache_pool :: "Downloader \<Rightarrow> Downloader" where
  "setup_cache_pool self =
     (if cache_type self = ''redis'' \<or> cache_type self = ''shared_lru''
         \<or> cache_type self = ''individual_lru''
      then self\<lparr>cache_pool_initialized := True\<rparr>
      else self)"

definition setup_dns_resolver :: "Downloader \<Rightarrow> Downloader" where
  "setup_dns_resolver self = self\<lparr>resolver := Some (cache_type self)\<rparr>"

text \<open>
  The two guarded calls: \<open>if self.use_public_dns: if not self.cache_pool_initialized:
  self._setup_cache_pool()\<close> at the start, and \<open>if self.resolver is None and
  self.use_public_dns: self._setup_dns_resolver()\<close> before the loop.
\<close>

definition ensure_cache_pool :: "Downloader \<Rightarrow> Downloader" where
  "ensure_cache_pool self =
     (if use_public_dns self \<and> \<not> cache_pool_initialized self
      then setup_cache_pool self else self)"

definition ensure_dns_resolver :: "Downloader \<Rightarrow> Downloader" where
  "ensure_dns_resolver self =
     (if resolver self = None \<and> use_public_dns self
      then setup_dns_resolver self else self)"

text \<open>\<open>[(key, x[url_indice]) for key, x in shard_to_dl]\<close>.\<close>

fun key_url_list_from :: "int \<Rightarrow> pyval list list \<Rightarrow> nat \<Rightarrow> error + (int \<times> pyval) list" where
  "key_url_list_from key [] url_indice = Inr []"
| "key_url_list_from key (x # rows) url_indice =
     (case py_index x (int url_indice) of
        Inl e \<Rightarrow> Inl e
      | Inr u \<Rightarrow>
          (case key_url_list_from (key + 1) rows url_indice of
             Inl e \<Rightarrow> Inl e
           | Inr rest \<Rightarrow> Inr ((key, u) # rest)))"

text \<open>
  Everything before the loop: the exception of the first step that raises, or the local
  variables and \<open>key_url_list\<close>.
\<close>

definition shard_setup ::
  "Downloader \<Rightarrow> shard_env \<Rightarrow> int \<times> string \<Rightarrow> error + (shard_locals \<times> (int \<times> pyval) list)" where
  "shard_setup self env row =
     (case read_shard env (snd row) of
        Inl e \<Rightarrow> Inl e
      | Inr rows \<Rightarrow>
          (case list_index (column_list self) ''url'' of
             None \<Rightarrow> Inl (ValueError ''url is not in list'')
           | Some url_indice \<Rightarrow>
               let caption_idx = list_index (column_list self) ''caption'';
                   hash_idx = (case verify_hash_type self of
                                 None \<Rightarrow> None
                               | Some h \<Rightarrow> list_index (column_list self) h)
               in (case (case blurring_bbox_col self of
                           None \<Rightarrow> Inr None
                         | Some b \<Rightarrow>
                             (case list_index (column_list self) b of
                                None \<Rightarrow> Inl (ValueError (b @ '' is not in list''))
                              | Some i \<Rightarrow> Inr (Some i))) of
                     Inl e \<Rightarrow> Inl e
                   | Inr bbox_idx \<Rightarrow>
                       (case key_url_list_from 0 rows url_indice of
                          Inl e \<Rightarrow> Inl e
                        | Inr key_url_list \<Rightarrow>
                            if thread_count self * 2 < 0
                            then Inl (ValueError ''semaphore initial value must be >= 0'')
                            else (case sample_writer_init env of
                                    Some e \<Rightarrow> Inl e
                                  | None \<Rightarrow>
                                      (case ceil_log10 env (number_sample_per_shard self) of
                                         Inl e \<Rightarrow> Inl e
                                       | Inr oom \<Rightarrow>
                                           if thread_count self < 1
                                           then Inl (ValueError
                                                  ''Number of processes must be at least 1'')
                                           else Inr (\<lparr>shard_id = fst row, shard_to_dl = rows,
                                                      oom_sample_per_shard = oom,
                                                      caption_indice = caption_idx,
                                                      hash_indice = hash_idx,
                                                      bbox_indice = bbox_idx\<rparr>,
                                                     key_url_list)))))))"

text \<open>
  The DNS figures of the report: \<open>(hits, misses, size)\<close>.  A resolver whose cache is the
  Redis cache has no attribute \<open>data\<close>.
\<close>

definition dns_cache_figures ::
  "Downloader \<Rightarrow> shard_env \<Rightarrow> int \<Rightarrow> error + (int \<times> int \<times> int)" where
  "dns_cache_figures self env count =
     (case resolver self of
        None \<Rightarrow> Inr (0, count, 0)
      | Some cache \<Rightarrow>
          if cache = ''redis''
          then Inl (AttributeError ''LRUCacheRedis object has no attribute data'')
          else Inr (lru_cache_hits env, lru_cache_misses env, int (lru_cache_size env)))"

definition initial_shard_state :: shard_state where
  "initial_shard_state =
     \<lparr>successes = 0, failed_to_download = 0, failed_to_resize = 0, status_dict = [],
      released = 0, written = [], printed = []\<rparr>"

definition download_shard :: "Downloader \<Rightarrow> shard_env \<Rightarrow> int \<times> string \<Rightarrow> shard_run" where
  "download_shard self env row =
     (let self1 = ensure_cache_pool self
      in case shard_setup self1 env row of
           Inl e \<Rightarrow> \<lparr>raised = Some e, reported = None, loop_state = None, self_after = self1\<rparr>
         | Inr (loc, key_url_list) \<Rightarrow>
             let self2 = ensure_dns_resolver self1;
                 count = int (length (shard_to_dl loc));
                 loop = consume self2 (loop_collaborators env) loc
                          (pool_results env key_url_list) initial_shard_state;
                 st = snd loop
             in (case fst loop of
                   Some e \<Rightarrow>
                     \<lparr>raised = Some e, reported = None, loop_state = Some st, self_after = self2\<rparr>
                 | None \<Rightarrow>
                     (case sample_writer_close env of
                        Some e \<Rightarrow>
                          \<lparr>raised = Some e, reported = None, loop_state = Some st,
                           self_after = self2\<rparr>
                      | None \<Rightarrow>
                          (case dns_cache_figures self2 env count of
                             Inl e \<Rightarrow>
                               \<lparr>raised = Some e, reported = None, loop_state = Some st,
                                self_after = self2\<rparr>
                           | Inr (hits, misses, cache_size) \<Rightarrow>
                               let report =
                                     \<lparr>stats_shard_id = fst row, stats_count = count,
                                      stats_successes = successes st,
                                      stats_failed_to_download = failed_to_download st,
                                      stats_failed_to_resize = failed_to_resize st,
                                      stats_status_dict = status_dict st,
                                      dns_cache_hits = hits, dns_cache_misses = misses,
                                      dns_cache_size = cache_size\<rparr>
                               in (case write_stats env report of
                                     Some e \<Rightarrow>
                                       \<lparr>raised = Some e, reported = Some report,
                                        loop_state = Some st, self_after = self2\<rparr>
                                   | None \<Rightarrow>
                                       \<lparr>raised = fs_rm env (snd row), reported = Some report,
                                        loop_state = Some st, self_after = self2\<rparr>)))))"


subsection \<open>The producer, the pool and the semaphore\<close>

text \<open>
  The pipeline of one shard while the loop runs.  The generator \<open>data_generator\<close> has
  yielded the items of \<open>key_url_list\<close> that are no longer \<open>pending\<close>, after one
  \<open>semaphore.acquire()\<close> each; \<open>in_flight\<close> are the yielded items whose iteration of the
  loop has not ended.  The semaphore starts at \<open>thread_count * 2\<close>; its value is that
  number, less the acquisitions, plus the releases.
\<close>

record pipeline =
  pending :: "(int \<times> pyval) list"
  acquired :: int
  in_flight :: "(int \<times> pyval) list"
  consumer :: shard_state

definition semaphore_value :: "Downloader \<Rightarrow> pipeline \<Rightarrow> int" where
  "semaphore_value self s = thread_count self * 2 - acquired s + released (consumer s)"

definition initial_pipeline :: "(int \<times> pyval) list \<Rightarrow> pipeline" where
  "initial_pipeline key_url_list =
     \<lparr>pending = key_url_list, acquired = 0, in_flight = [], consumer = initial_shard_state\<rparr>"

text \<open>
  The steps: the generator acquires a unit and yields the next item, which blocks while
  the semaphore is at zero; or the item at some position of \<open>in_flight\<close> comes back from
  its worker with a payload or an error message and the loop body runs for it.  A step
  that cannot happen in the state is \<open>None\<close>.
\<close>

datatype event = Yield | Finish nat "string option" "string option"

fun pipeline_step ::
  "Downloader \<Rightarrow> collaborators \<Rightarrow> shard_locals \<Rightarrow> event \<Rightarrow> pipeline \<Rightarrow> pipeline option" where
  "pipeline_step self c loc Yield s =
     (case pending s of
        [] \<Rightarrow> None
      | e # rest \<Rightarrow>
          if 0 < semaphore_value self s
          then Some (s\<lparr>pending := rest, acquired := acquired s + 1,
                       in_flight := in_flight s @ [e]\<rparr>)
          else None)"
| "pipeline_step self c loc (Finish i img_stream error_message) s =
     (if i < length (in_flight s)
      then Some (s\<lparr>in_flight := take i (in_flight s) @ drop (Suc i) (in_flight s),
                   consumer := process_item self c loc
                     (fst (in_flight s ! i), img_stream, error_message) (consumer s)\<rparr>)
      else None)"

fun pipeline_run ::
  "Downloader \<Rightarrow> collaborators \<Rightarrow> shard_locals \<Rightarrow> event list \<Rightarrow> pipeline \<Rightarrow> pipeline option" where
  "pipeline_run self c loc [] s = Some s"
| "pipeline_run self c loc (ev # evs) s =
     (case pipeline_step self c loc ev s of
        None \<Rightarrow> None
      | Some s' \<Rightarrow> pipeline_run self c loc evs s')"

subsection \<open>An example shard\<close>

text \<open>
  A downloader without DNS resolution and with one worker, a shard of three rows, a writer
  that fails for the key \<open>00001\<close>, and a pool that delivers the second row first.
\<close>

definition example_downloader :: Downloader where
  "example_downloader =
     \<lparr>thread_count = 1, extract_exif = False, output_folder = ''out'',
      column_list = [''url'', ''caption''], number_sample_per_shard = 1000,
      oom_shard_count = 2, compute_hash = None, verify_hash_type = None,
      blurring_bbox_col = None, use_public_dns = False, cache_pool_initialized = False,
      cache_type = ''shared_lru'', resolver = None\<rparr>"

definition example_rows :: "pyval list list" where
  "example_rows =
     [[PStr ''http://a.example/1.jpg'', PStr ''one''],
      [PStr ''http://b.example/2.jpg'', PStr ''two''],
      [PStr ''http://c.example/3.jpg'', PStr ''three'']]"

definition example_collaborators :: collaborators where
  "example_collaborators =
     \<lparr>writer_write = (\<lambda>call. if fst (snd call) = ''00001''
                              then Some (Raised ''No space left on device'') else None),
      resizer = (\<lambda>bytes bbox_list.
        Inr \<lparr>img = bytes, width = PInt 32, height = PInt 32, original_width = PInt 64,
             original_height = PInt 64, resize_error = None\<rparr>),
      digest = (\<lambda>name bytes. Inr ''d41d8cd98f00b204e9800998ecf8427e''),
      exif_json = (\<lambda>bytes. Inr ''{}'')\<rparr>"

definition example_locals :: shard_locals where
  "example_locals =
     \<lparr>shard_id = 0, shard_to_dl = example_rows, oom_sample_per_shard = 3,
      caption_indice = Some 1, hash_indice = None, bbox_indice = None\<rparr>"

definition example_env :: shard_env where
  "example_env =
     \<lparr>read_shard = (\<lambda>file. if file = ''shard_0.feather'' then Inr example_rows
                            else Inl (Raised ''No such file or directory'')),
      sample_writer_init = None,
      ceil_log10 = (\<lambda>n. if n = 1000 then Inr 3 else Inl (ValueError ''math domain error'')),
      pool_results = (\<lambda>key_url_list.
        [Inr (1, Some ''JFIF'', None), Inr (0, None, Some ''timed out''),
         Inr (2, Some ''JFIF'', None)]),
      loop_collaborators = example_collaborators,
      sample_writer_close = None,
      lru_cache_size = 0, lru_cache_hits = 0, lru_cache_misses = 0,
      write_stats = (\<lambda>report. None),
      fs_rm = (\<lambda>file. None)\<rparr>"




section \<open>Thread-shared merge cache (cache\_copy.py, GlobalCache)\<close>

text \<open>
  The cache is a dictionary guarded by a lock; \<open>merge\<close> runs wholly under the lock, so it
  is one atomic step on the dictionary.
\<close>

record ('k, 'v) GlobalCache =
  data :: "'k \<rightharpoonup> 'v"

definition GlobalCache_merge :: "('k, 'v) GlobalCache \<Rightarrow> ('k \<rightharpoonup> 'v) \<Rightarrow> ('k, 'v) GlobalCache" where
  "GlobalCache_merge self new_data =
     (let keys_to_add = dom new_data - dom (data self);
          keys_to_add_data = new_data |` keys_to_add
      in self\<lparr>data := data self ++ keys_to_add_data\<rparr>)"

definition GlobalCache_get :: "('k, 'v) GlobalCache \<Rightarrow> 'k \<Rightarrow> 'v option" where
  "GlobalCache_get self key = data self key"

section \<open>Remote LRU cache (lru\_cache.py, LRUCacheRedis)\<close>

subsection \<open>The key-value store\<close>

text \<open>
  A Redis database maps keys to typed values, of which the cache uses strings and lists.
  A command on a key that holds a value of the other type fails (WRONGTYPE); a list that
  becomes empty is removed with its key.
\<close>

datatype redis_value = RString string | RList "string list"

type_synonym redis_db = "string \<rightharpoonup> redis_value"

definition wrongtype :: error where
  "wrongtype = Raised ''WRONGTYPE Operation against a key holding the wrong kind of value''"

definition redis_get :: "redis_db \<Rightarrow> string \<Rightarrow> error + string option" where
  "redis_get db k =
     (case db k of
        None \<Rightarrow> Inr None
      | Some (RString b) \<Rightarrow> Inr (Some b)
      | Some (RList xs) \<Rightarrow> Inl wrongtype)"

definition redis_set :: "redis_db \<Rightarrow> string \<Rightarrow> string \<Rightarrow> redis_db" where
  "redis_set db k b = db(k \<mapsto> RString b)"

text \<open>\<open>LREM k 0 x\<close>: all occurrences of \<open>x\<close> leave the list at \<open>k\<close>.\<close>

definition redis_lrem_all :: "redis_db \<Rightarrow> string \<Rightarrow> string \<Rightarrow> error + redis_db" where
  "redis_lrem_all db k x =
     (case db k of
        None \<Rightarrow> Inr db
      | Some (RString b) \<Rightarrow> Inl wrongtype
      | Some (RList xs) \<Rightarrow>
          (let ys = filter (\<lambda>y. y \<noteq> x) xs
           in Inr (if ys = [] then db(k := None) else db(k \<mapsto> RList ys))))"

definition redis_lpush :: "redis_db \<Rightarrow> string \<Rightarrow> string \<Rightarrow> error + redis_db" where
  "redis_lpush db k x =
     (case db k of
        None \<Rightarrow> Inr (db(k \<mapsto> RList [x]))
      | Some (RString b) \<Rightarrow> Inl wrongtype
      | Some (RList xs) \<Rightarrow> Inr (db(k \<mapsto> RList (x # xs))))"

definition redis_delete :: "redis_db \<Rightarrow> string \<Rightarrow> redis_db" where
  "redis_delete db k = db(k := None)"

definition redis_flushdb :: "redis_db \<Rightarrow> redis_db" where
  "redis_flushdb db = Map.empty"

subsection \<open>The cache\<close>

text \<open>
  The cache object: the database behind its connection and the two counters of
  \<open>self.statistics\<close>.  A cache key is the text of the name with the two numbers;
  \<open>pickle.dumps\<close> and \<open>pickle.loads\<close> are parameters, and \<open>loads\<close> may raise.
\<close>

record LRUCacheRedis =
  conn :: redis_db
  hits :: int
  misses :: int

type_synonym CacheKey = "string \<times> int \<times> int"

definition generate_cache_key :: "CacheKey \<Rightarrow> string" where
  "generate_cache_key key =
     (case key of (name, rdtype, rdclass) \<Rightarrow>
        name @ '':'' @ format_0d 0 rdtype @ '':'' @ format_0d 0 rdclass)"

text \<open>The recency list is the list stored under the key \<open>lru_list\<close>.\<close>

definition lru_list :: "redis_db \<Rightarrow> string list" where
  "lru_list db = (case db ''lru_list'' of Some (RList xs) \<Rightarrow> xs | _ \<Rightarrow> [])"

definition lru_list_ok :: "redis_db \<Rightarrow> bool" where
  "lru_list_ok db = (case db ''lru_list'' of Some (RString b) \<Rightarrow> False | _ \<Rightarrow> True)"

definition LRUCacheRedis_get ::
  "(string \<Rightarrow> error + 'a) \<Rightarrow> LRUCacheRedis \<Rightarrow> CacheKey \<Rightarrow> (error + 'a option) \<times> LRUCacheRedis" where
  "LRUCacheRedis_get loads self key =
     (let cache_key = generate_cache_key key
      in case redis_get (conn self) cache_key of
           Inl e \<Rightarrow> (Inl e, self)
         | Inr None \<Rightarrow> (Inr None, self\<lparr>misses := misses self + 1\<rparr>)
         | Inr (Some cache_data) \<Rightarrow>
             (case loads cache_data of
                Inl e \<Rightarrow> (Inl e, self)
              | Inr answer \<Rightarrow>
                  (case redis_lrem_all (conn self) ''lru_list'' cache_key of
                     Inl e \<Rightarrow> (Inl e, self)
                   | Inr db1 \<Rightarrow>
                       (case redis_lpush db1 ''lru_list'' cache_key of
                          Inl e \<Rightarrow> (Inl e, self\<lparr>conn := db1\<rparr>)
                        | Inr db2 \<Rightarrow>
                            (Inr (Some answer),
                             self\<lparr>conn := db2, hits := hits self + 1\<rparr>)))))"

definition LRUCacheRedis_put ::
  "('a \<Rightarrow> string) \<Rightarrow> LRUCacheRedis \<Rightarrow> CacheKey \<Rightarrow> 'a \<Rightarrow> error option \<times> LRUCacheRedis" where
  "LRUCacheRedis_put dumps self key v =
     (let cache_key = generate_cache_key key;
          serialized_value = dumps v;
          db1 = redis_set (conn self) cache_key serialized_value
      in case redis_lrem_all db1 ''lru_list'' cache_key of
           Inl e \<Rightarrow> (Some e, self\<lparr>conn := db1\<rparr>)
         | Inr db2 \<Rightarrow>
             (case redis_lpush db2 ''lru_list'' cache_key of
                Inl e \<Rightarrow> (Some e, self\<lparr>conn := db2\<rparr>)
              | Inr db3 \<Rightarrow> (None, self\<lparr>conn := db3\<rparr>)))"

definition LRUCacheRedis_flush ::
  "LRUCacheRedis \<Rightarrow> CacheKey option \<Rightarrow> error option \<times> LRUCacheRedis" where
  "LRUCacheRedis_flush self key =
     (case key of
        Some k \<Rightarrow>
          (let cache_key = generate_cache_key k;
               db1 = redis_delete (conn self) cache_key
           in case redis_lrem_all db1 ''lru_list'' cache_key of
                Inl e \<Rightarrow> (Some e, self\<lparr>conn := db1\<rparr>)
              | Inr db2 \<Rightarrow> (None, self\<lparr>conn := db2\<rparr>))
      | None \<Rightarrow> (None, self\<lparr>conn := redis_flushdb (conn self)\<rparr>))"

text \<open>A cache with two entries, the older one first in use.\<close>

definition example_cache :: LRUCacheRedis where
  "example_cache =
     \<lparr>conn = [''example.com.:1:1'' \<mapsto> RString ''93.184.216.34'',
              ''old.example.:1:1'' \<mapsto> RString ''10.0.0.7'',
              ''lru_list'' \<mapsto> RList [''old.example.:1:1'', ''example.com.:1:1'']],
      hits = 0, misses = 0\<rparr>"

chapter \<open>Properties\<close>

section \<open>Key encoding\<close>

declare digits.simps [simp del]

lemma digit_val_digit_char: "d < 10 \<Longrightarrow> digit_val (digit_char d) = d"
proof -
  assume "d < 10"
  then consider "d = 0" | "d = 1" | "d = 2" | "d = 3" | "d = 4"
    | "d = 5" | "d = 6" | "d = 7" | "d = 8" | "d = 9"
    by atomize_elim arith
  then show ?thesis
    by cases (simp_all add: digit_val_def digit_char_def)
qed

lemma isdigit_digit_char: "d < 10 \<Longrightarrow> isdigit (digit_char d)"
proof -
  assume "d < 10"
  then consider "d = 0" | "d = 1" | "d = 2" | "d = 3" | "d = 4"
    | "d = 5" | "d = 6" | "d = 7" | "d = 8" | "d = 9"
    by atomize_elim arith
  then show ?thesis
    by cases (simp_all add: isdigit_def digit_char_def)
qed

lemma digits_isdigit: "c \<in> set (digits n) \<Longrightarrow> isdigit c"
proof (induction n rule: digits.induct)
  case (1 n)
  show ?case
  proof (cases "n < 10")
    case True
    with "1.prems" show ?thesis
      by (simp add: digits.simps [of n] isdigit_digit_char)
  next
    case False
    with "1.prems" "1.IH" show ?thesis
      by (auto simp add: digits.simps [of n] isdigit_digit_char)
  qed
qed

lemma digits_length: "0 < w \<Longrightarrow> n < 10 ^ w \<Longrightarrow> length (digits n) \<le> w"
proof (induction n arbitrary: w rule: digits.induct)
  case (1 n)
  show ?case
  proof (cases "n < 10")
    case True
    with "1.prems" show ?thesis
      by (simp add: digits.simps [of n])
  next
    case False
    from "1.prems" obtain v where w: "w = Suc v"
      by (cases w) auto
    from False "1.prems" w have "0 < v"
      by (cases v) auto
    moreover from "1.prems" w have "n div 10 < 10 ^ v"
      by (simp add: less_mult_imp_div_less mult.commute)
    ultimately have "length (digits (n div 10)) \<le> v"
      using "1.IH" False by blast
    with False w show ?thesis
      by (simp add: digits.simps [of n])
  qed
qed

lemma int_of_str_snoc: "int_of_str (s @ [c]) = 10 * int_of_str s + digit_val c"
  by (simp add: int_of_str_def)

lemma int_of_str_digits: "int_of_str (digits n) = n"
proof (induction n rule: digits.induct)
  case (1 n)
  show ?case
  proof (cases "n < 10")
    case True
    then show ?thesis
      by (simp add: digits.simps [of n] int_of_str_def digit_val_digit_char)
  next
    case False
    with "1.IH" show ?thesis
      by (simp add: digits.simps [of n] int_of_str_snoc digit_val_digit_char)
  qed
qed

lemma foldl_zero_pad:
  "foldl (\<lambda>a c. 10 * a + digit_val c) 0 (replicate k CHR ''0'' @ s)
   = foldl (\<lambda>a c. 10 * a + digit_val c) 0 s"
  by (induction k) (simp_all add: digit_val_def)

lemma int_of_str_zero_pad: "int_of_str (zero_pad w s) = int_of_str s"
  by (simp add: int_of_str_def zero_pad_def foldl_zero_pad del: foldl_append)

lemma length_zero_pad: "length s \<le> w \<Longrightarrow> length (zero_pad w s) = w"
  by (simp add: zero_pad_def)

lemma isdigit_zero: "isdigit CHR ''0''"
  by (simp add: isdigit_def)

lemma isdigit_zero_pad: "list_all isdigit s \<Longrightarrow> list_all isdigit (zero_pad w s)"
  by (auto simp add: zero_pad_def list_all_iff isdigit_zero)

lemma compute_key_value:
  assumes "0 \<le> key" "0 \<le> sid"
  shows "compute_key key sid (int a) (int b)
         = Inr (zero_pad (a + b) (digits (nat (sid * 10 ^ a + key))))"
proof -
  from assms have "0 \<le> sid * 10 ^ a + key" by simp
  then have neg: "\<not> sid * 10 ^ a + key < 0" by simp
  have w: "nat (int a + int b) = a + b" by simp
  have c: "10 ^ a * sid = sid * 10 ^ a" by simp
  have nn: "\<not> int a < 0" "\<not> int a + int b < 0" by simp_all
  show ?thesis
    unfolding compute_key_def Let_def format_0d_def nat_int c w
    by (simp only: neg nn if_False)
qed

lemma true_key_bound:
  assumes "0 \<le> key" "key < 10 ^ a" "0 \<le> sid" "sid < 10 ^ b"
  shows "nat (sid * 10 ^ a + key) < 10 ^ (a + b)"
proof -
  from assms have "sid + 1 \<le> 10 ^ b" by simp
  then have "(sid + 1) * 10 ^ a \<le> (10::int) ^ b * 10 ^ a"
    by (rule mult_right_mono) simp
  with assms have "sid * 10 ^ a + key < (10::int) ^ (a + b)"
    by (simp add: algebra_simps power_add)
  then show ?thesis
    using assms by (simp add: nat_less_iff)
qed

lemma true_key_inj:
  assumes "0 \<le> key" "key < 10 ^ a" "0 \<le> key'" "key' < 10 ^ a"
    and "sid * 10 ^ a + key = sid' * 10 ^ a + (key'::int)"
  shows "key = key' \<and> sid = sid'"
proof -
  have "(sid * 10 ^ a + key) mod 10 ^ a = key"
    using assms(1,2) by simp
  moreover have "(sid' * 10 ^ a + key') mod 10 ^ a = key'"
    using assms(3,4) by simp
  ultimately have k: "key = key'"
    using assms(5) by metis
  with assms have "sid * 10 ^ a = sid' * (10::int) ^ a" by simp
  then have "sid = sid'" by simp
  with k show ?thesis by simp
qed

text \<open>
  Claim C4, as the code has it.  For an ordinal \<open>key\<close> with \<open>0 \<le> key < 10 ^ a\<close> and a
  shard id with \<open>0 \<le> sid < 10 ^ b\<close>, and digit counts with \<open>a + b \<ge> 1\<close>,
  \<open>compute_key\<close> returns the decimal representation of \<open>sid * 10 ^ a + key\<close>
  zero-padded on the left; the result has exactly \<open>a + b\<close> characters, all of them
  digits, reads back as that number, and for fixed digit counts two inputs of the domain
  with the same key string are the same input.
\<close>

theorem compute_key_fixed_width_injective:
  assumes "0 \<le> key" "key < 10 ^ a" "0 \<le> sid" "sid < 10 ^ b"
    and "0 \<le> key'" "key' < 10 ^ a" "0 \<le> sid'" "sid' < 10 ^ b"
    and "0 < a + b"
  shows "compute_key key sid (int a) (int b)
           = Inr (zero_pad (a + b) (digits (nat (sid * 10 ^ a + key))))
         \<and> length (zero_pad (a + b) (digits (nat (sid * 10 ^ a + key)))) = a + b
         \<and> list_all isdigit (zero_pad (a + b) (digits (nat (sid * 10 ^ a + key))))
         \<and> int_of_str (zero_pad (a + b) (digits (nat (sid * 10 ^ a + key))))
             = nat (sid * 10 ^ a + key)
         \<and> (compute_key key sid (int a) (int b) = compute_key key' sid' (int a) (int b)
             \<longrightarrow> key = key' \<and> sid = sid')"
proof (intro conjI impI)
  let ?n = "nat (sid * 10 ^ a + key)"
  let ?n' = "nat (sid' * 10 ^ a + key')"
  show kv: "compute_key key sid (int a) (int b) = Inr (zero_pad (a + b) (digits ?n))"
    using assms(1,3) by (rule compute_key_value)
  have "length (digits ?n) \<le> a + b"
    using assms(9) true_key_bound [OF assms(1-4)] by (rule digits_length)
  then show "length (zero_pad (a + b) (digits ?n)) = a + b"
    by (rule length_zero_pad)
  have "list_all isdigit (digits ?n)"
    by (simp add: list_all_iff digits_isdigit)
  then show "list_all isdigit (zero_pad (a + b) (digits ?n))"
    by (rule isdigit_zero_pad)
  show "int_of_str (zero_pad (a + b) (digits ?n)) = ?n"
    by (simp add: int_of_str_zero_pad int_of_str_digits)
  assume same: "compute_key key sid (int a) (int b) = compute_key key' sid' (int a) (int b)"
  have "compute_key key' sid' (int a) (int b) = Inr (zero_pad (a + b) (digits ?n'))"
    using assms(5,7) by (rule compute_key_value)
  with same kv have "zero_pad (a + b) (digits ?n) = zero_pad (a + b) (digits ?n')"
    by simp
  then have "int_of_str (zero_pad (a + b) (digits ?n)) = int_of_str (zero_pad (a + b) (digits ?n'))"
    by simp
  then have "?n = ?n'"
    by (simp add: int_of_str_zero_pad int_of_str_digits)
  moreover have "0 \<le> sid * 10 ^ a + key" "0 \<le> sid' * 10 ^ a + key'"
    using assms by simp_all
  ultimately have "sid * 10 ^ a + key = sid' * 10 ^ a + key'"
    by simp
  with assms(1,2,5,6) show "key = key'" "sid = sid'"
    using true_key_inj by blast+
qed

theorem compute_key_fixed_width_injective_witness:
  "compute_key 7 12 (int 3) (int 2) = Inr ''12007''
   \<and> length ''12007'' = 3 + 2
   \<and> list_all isdigit ''12007''
   \<and> int_of_str ''12007'' = 12007
   \<and> compute_key 7 12 (int 3) (int 2) \<noteq> compute_key 8 12 (int 3) (int 2)"
proof -
  have dom: "(0::int) \<le> 7" "(7::int) < 10 ^ 3" "(0::int) \<le> 12" "(12::int) < 10 ^ 2"
    "(0::int) \<le> 8" "(8::int) < 10 ^ 3" "0 < (3::nat) + 2"
    by simp_all
  note t = compute_key_fixed_width_injective
    [OF dom(1) dom(2) dom(3) dom(4) dom(5) dom(6) dom(3) dom(4) dom(7)]
  have pad: "zero_pad (3 + 2) (digits 12007) = ''12007''"
    by (simp add: zero_pad_def digits.simps digit_char_def)
  have n: "nat (12 * 10 ^ 3 + 7) = 12007" by simp
  have "(7::int) \<noteq> 8" by simp
  with t have "compute_key 7 12 (int 3) (int 2) \<noteq> compute_key 8 12 (int 3) (int 2)"
    by blast
  with t show ?thesis
    unfolding n pad by blast
qed

text \<open>
  Claim C4 as stated does not hold when both digit counts are zero: the only input of
  the domain is ordinal 0 in shard 0, and its key is the one-character string \<open>0\<close>, not a
  string of length \<open>0 + 0\<close>, because the format width is a minimum.
\<close>

theorem compute_key_zero_width_counterexample:
  "compute_key 0 0 0 0 = Inr ''0'' \<and> length ''0'' \<noteq> 0 + (0::nat)"
  by (simp add: compute_key_def format_0d_def zero_pad_def digits.simps digit_char_def)

section \<open>DNS resolution\<close>

lemma pool_length: "length PUBLIC_DNS_SERVERS = 7"
  by (simp add: PUBLIC_DNS_SERVERS_def)

lemma pool_distinct: "distinct PUBLIC_DNS_SERVERS"
  by (simp add: PUBLIC_DNS_SERVERS_def)

lemma pool_card: "card (set PUBLIC_DNS_SERVERS) = 7"
  using pool_distinct pool_length by (simp add: distinct_card)

lemma random_choice_in_pool: "random_choice rnd i \<in> set PUBLIC_DNS_SERVERS"
  by (simp add: random_choice_def pool_length)

lemma select_dns_server_Some_aux:
  assumes "select_dns_server rnd bl i = Some y"
  shows "fst y \<notin> bl \<and> fst y \<in> set PUBLIC_DNS_SERVERS \<and> i < snd y"
proof (rule select_dns_server.raw_induct
    [where P = "\<lambda>rnd bl i y. fst y \<notin> bl \<and> fst y \<in> set PUBLIC_DNS_SERVERS \<and> i < snd y",
     OF _ assms])
  fix select :: "(nat \<Rightarrow> nat) \<Rightarrow> string set \<Rightarrow> nat \<Rightarrow> (string \<times> nat) option"
    and rnd bl i y
  assume IH: "\<And>rnd bl i y. select rnd bl i = Some y
      \<Longrightarrow> fst y \<notin> bl \<and> fst y \<in> set PUBLIC_DNS_SERVERS \<and> i < snd y"
    and step: "(let selected_dns_server = random_choice rnd i
                in if selected_dns_server \<in> bl then select rnd bl (Suc i)
                   else Some (selected_dns_server, Suc i)) = Some y"
  show "fst y \<notin> bl \<and> fst y \<in> set PUBLIC_DNS_SERVERS \<and> i < snd y"
  proof (cases "random_choice rnd i \<in> bl")
    case True
    with step have "select rnd bl (Suc i) = Some y"
      by (simp add: Let_def)
    then have "fst y \<notin> bl \<and> fst y \<in> set PUBLIC_DNS_SERVERS \<and> Suc i < snd y"
      by (rule IH)
    then show ?thesis by simp
  next
    case False
    with step show ?thesis
      by (auto simp add: Let_def random_choice_in_pool)
  qed
qed

lemma select_dns_server_Some:
  "select_dns_server rnd bl i = Some (s, k)
   \<Longrightarrow> s \<notin> bl \<and> s \<in> set PUBLIC_DNS_SERVERS \<and> i < k"
  using select_dns_server_Some_aux [of rnd bl i "(s, k)"] by simp

lemma select_dns_server_exhausted:
  assumes "set PUBLIC_DNS_SERVERS \<subseteq> bl"
  shows "select_dns_server rnd bl i = None"
proof (cases "select_dns_server rnd bl i")
  case None
  then show ?thesis .
next
  case (Some r)
  then have "fst r \<notin> bl \<and> fst r \<in> set PUBLIC_DNS_SERVERS"
    using select_dns_server_Some [of rnd bl i "fst r" "snd r"] by simp
  with assms show ?thesis by blast
qed

lemma select_dns_server_hits:
  "random_choice rnd j \<notin> bl \<Longrightarrow> i \<le> j \<Longrightarrow> \<exists>s k. select_dns_server rnd bl i = Some (s, k)"
proof (induction "j - i" arbitrary: i)
  case 0
  then have "i = j" by simp
  with 0 show ?case
    by (subst select_dns_server.simps) (simp add: Let_def)
next
  case (Suc d)
  show ?case
  proof (cases "random_choice rnd i \<in> bl")
    case True
    from Suc have "d = j - Suc i" "Suc i \<le> j" by simp_all
    with Suc have "\<exists>s k. select_dns_server rnd bl (Suc i) = Some (s, k)" by blast
    with True show ?thesis
      by (subst select_dns_server.simps) (simp add: Let_def)
  next
    case False
    then show ?thesis
      by (subst select_dns_server.simps) (simp add: Let_def)
  qed
qed

lemma fair_select:
  assumes "fair rnd" and "\<not> set PUBLIC_DNS_SERVERS \<subseteq> bl"
  shows "\<exists>s k. select_dns_server rnd bl i = Some (s, k)"
proof -
  from assms(2) obtain s where s: "s \<in> set PUBLIC_DNS_SERVERS" "s \<notin> bl" by blast
  then obtain n where n: "n < length PUBLIC_DNS_SERVERS" "PUBLIC_DNS_SERVERS ! n = s"
    by (auto simp add: in_set_conv_nth)
  with assms(1) obtain j where "j \<ge> i" "rnd j mod length PUBLIC_DNS_SERVERS = n"
    unfolding fair_def by blast
  with n s have "random_choice rnd j \<notin> bl" "i \<le> j"
    by (simp_all add: random_choice_def)
  then show ?thesis by (rule select_dns_server_hits)
qed

lemma fair_round_robin: "fair round_robin"
  unfolding fair_def round_robin_def
proof (intro allI impI)
  fix i k
  assume k: "k < length PUBLIC_DNS_SERVERS"
  let ?n = "length PUBLIC_DNS_SERVERS"
  have "i \<le> i * ?n + k" using k by (cases ?n) auto
  moreover have "(i * ?n + k) mod ?n = k" using k by simp
  ultimately show "\<exists>j\<ge>i. j mod ?n = k" by blast
qed


declare resolve_domain.simps [simp del]

lemma pool_minus_insert:
  assumes "s \<in> set PUBLIC_DNS_SERVERS" "s \<notin> bl"
  shows "card (set PUBLIC_DNS_SERVERS - insert s bl) = card (set PUBLIC_DNS_SERVERS - bl) - 1"
proof -
  have "set PUBLIC_DNS_SERVERS - insert s bl = (set PUBLIC_DNS_SERVERS - bl) - {s}" by blast
  moreover from assms have "s \<in> set PUBLIC_DNS_SERVERS - bl" by simp
  ultimately show ?thesis by simp
qed

lemma pool_minus_nonempty:
  "0 < card (set PUBLIC_DNS_SERVERS - bl) \<Longrightarrow> \<not> set PUBLIC_DNS_SERVERS \<subseteq> bl"
  by (auto simp add: card_gt_0_iff)

lemma resolve_domain_failing:
  assumes fair: "fair rnd" and fails: "\<forall>ns. \<exists>e. res ns domain = Inl e"
  shows "m < card (set PUBLIC_DNS_SERVERS - bl) \<Longrightarrow>
    \<exists>r new. resolve_domain res rnd domain bl (int m) i tr = Some r \<and> \<not> ok r
      \<and> selections r = tr @ new \<and> length new = m + 1 \<and> distinct new
      \<and> set new \<subseteq> set PUBLIC_DNS_SERVERS - bl \<and> blacklist r = bl \<union> set (butlast new)
      \<and> (\<exists>e. res (last new) domain = Inl e \<and> ip_or_err r = parse_dns_error e)"
proof (induction m arbitrary: bl i tr)
  case 0
  then have "\<not> set PUBLIC_DNS_SERVERS \<subseteq> bl" by (simp add: pool_minus_nonempty)
  with fair obtain s k where sel: "select_dns_server rnd bl i = Some (s, k)"
    using fair_select by blast
  then have s: "s \<notin> bl" "s \<in> set PUBLIC_DNS_SERVERS"
    using select_dns_server_Some by blast+
  from fails obtain e where e: "res s domain = Inl e" by blast
  from sel e have "resolve_domain res rnd domain bl (int 0) i tr
      = Some \<lparr>ok = False, ip_or_err = parse_dns_error e, blacklist = bl,
              selections = tr @ [s], rng_pos = k\<rparr>"
    by (simp add: resolve_domain.simps)
  with s e show ?case by simp
next
  case (Suc m)
  then have "\<not> set PUBLIC_DNS_SERVERS \<subseteq> bl" by (simp add: pool_minus_nonempty)
  with fair obtain s k where sel: "select_dns_server rnd bl i = Some (s, k)"
    using fair_select by blast
  then have s: "s \<notin> bl" "s \<in> set PUBLIC_DNS_SERVERS"
    using select_dns_server_Some by blast+
  from fails obtain e where e: "res s domain = Inl e" by blast
  from s Suc.prems have "m < card (set PUBLIC_DNS_SERVERS - insert s bl)"
    by (simp add: pool_minus_insert)
  from Suc.IH [OF this, of k "tr @ [s]"] obtain r new where
    r: "resolve_domain res rnd domain (insert s bl) (int m) k (tr @ [s]) = Some r"
      "\<not> ok r" "selections r = (tr @ [s]) @ new" "length new = m + 1" "distinct new"
      "set new \<subseteq> set PUBLIC_DNS_SERVERS - insert s bl"
      "blacklist r = insert s bl \<union> set (butlast new)"
      "\<exists>e. res (last new) domain = Inl e \<and> ip_or_err r = parse_dns_error e"
    by blast
  from sel e r(1) have "resolve_domain res rnd domain bl (int (Suc m)) i tr = Some r"
    by (simp add: resolve_domain.simps [of _ _ _ bl])
  moreover from r(4) have ne: "new \<noteq> []" by auto
  moreover from r(3) have "selections r = tr @ (s # new)" by simp
  moreover from r(4) have "length (s # new) = Suc m + 1" by simp
  moreover from r(5,6) have "distinct (s # new)" by auto
  moreover from r(6) s have "set (s # new) \<subseteq> set PUBLIC_DNS_SERVERS - bl" by auto
  moreover from r(7) ne have "blacklist r = bl \<union> set (butlast (s # new))" by simp
  moreover from r(8) ne have
    "\<exists>e. res (last (s # new)) domain = Inl e \<and> ip_or_err r = parse_dns_error e" by simp
  ultimately show ?case using r(2) by blast
qed

lemma resolve_domain_exhausts:
  assumes fails: "\<forall>ns. \<exists>e. res ns domain = Inl e"
  shows "card (set PUBLIC_DNS_SERVERS - bl) \<le> m \<Longrightarrow> int m \<le> n
    \<Longrightarrow> resolve_domain res rnd domain bl n i tr = None"
proof (induction m arbitrary: bl n i tr)
  case 0
  then have "set PUBLIC_DNS_SERVERS \<subseteq> bl" by simp
  then have "select_dns_server rnd bl i = None" by (rule select_dns_server_exhausted)
  then show ?case by (simp add: resolve_domain.simps)
next
  case (Suc m)
  show ?case
  proof (cases "select_dns_server rnd bl i")
    case None
    then show ?thesis by (simp add: resolve_domain.simps)
  next
    case (Some a)
    obtain s k where a: "a = (s, k)" by (cases a)
    with Some have s: "s \<notin> bl" "s \<in> set PUBLIC_DNS_SERVERS"
      using select_dns_server_Some by blast+
    from fails obtain e where e: "res s domain = Inl e" by blast
    from s Suc.prems have "card (set PUBLIC_DNS_SERVERS - insert s bl) \<le> m"
      by (simp add: pool_minus_insert)
    moreover from Suc.prems have "int m \<le> n - 1" by simp
    ultimately have "resolve_domain res rnd domain (insert s bl) (n - 1) k (tr @ [s]) = None"
      by (rule Suc.IH)
    moreover from Suc.prems have "0 < n" by simp
    ultimately show ?thesis
      using Some a e by (simp add: resolve_domain.simps [of _ _ _ bl])
  qed
qed

text \<open>
  Claim C3, as the code has it.  Let every lookup of the domain fail, let the retry
  budget \<open>N\<close> satisfy \<open>0 \<le> N\<close> and \<open>N + 1 \<le> 7\<close>, the size of the resolver pool, and let
  the random source be fair, so that the selection loop ends.  A call of
  \<open>resolve_domain\<close> that starts from an empty blacklist returns; it has selected exactly
  \<open>N + 1\<close> resolvers, one per resolution attempt, all distinct members of the pool; the
  blacklist holds the first \<open>N\<close> of them; and the result is \<open>ok = False\<close> with the
  normalised text of the last error.
\<close>

theorem resolve_domain_retry_budget:
  assumes "fair rnd" and "\<forall>ns. \<exists>e. res ns domain = Inl e"
    and "0 \<le> N" and "N + 1 \<le> int (length PUBLIC_DNS_SERVERS)"
  shows "\<exists>r. resolve_domain res rnd domain {} N i [] = Some r
           \<and> \<not> ok r
           \<and> length (selections r) = nat N + 1
           \<and> distinct (selections r)
           \<and> set (selections r) \<subseteq> set PUBLIC_DNS_SERVERS
           \<and> blacklist r = set (butlast (selections r))
           \<and> card (blacklist r) = nat N
           \<and> (\<exists>e. res (last (selections r)) domain = Inl e
                   \<and> ip_or_err r = parse_dns_error e)"
proof -
  from assms(3,4) have "nat N < card (set PUBLIC_DNS_SERVERS - {})"
    by (simp add: pool_card pool_length)
  from resolve_domain_failing [of rnd res domain "nat N" "{}" i "[]"] assms(1,2,3) this
  obtain r new where r: "resolve_domain res rnd domain {} N i [] = Some r" "\<not> ok r"
      "selections r = new" "length new = nat N + 1" "distinct new"
      "set new \<subseteq> set PUBLIC_DNS_SERVERS" "blacklist r = set (butlast new)"
      "\<exists>e. res (last new) domain = Inl e \<and> ip_or_err r = parse_dns_error e"
    by auto
  from r(5) have "distinct (butlast new)" by (rule distinct_butlast)
  with r(4,7) have "card (blacklist r) = nat N" by (simp add: distinct_card)
  with r show ?thesis by auto
qed

lemma select_dns_server_fresh:
  "random_choice rnd i \<notin> bl
   \<Longrightarrow> select_dns_server rnd bl i = Some (random_choice rnd i, Suc i)"
  by (subst select_dns_server.simps) (simp add: Let_def)

lemma select_dns_server_skip:
  "random_choice rnd i \<in> bl
   \<Longrightarrow> select_dns_server rnd bl i = select_dns_server rnd bl (Suc i)"
  by (subst select_dns_server.simps) (simp add: Let_def)

lemmas dns_eval =
  resolve_domain.simps select_dns_server_fresh random_choice_def round_robin_def
  PUBLIC_DNS_SERVERS_def always_fails_def parse_dns_error_def

text \<open>
  The hypotheses of C3 hold for the round-robin source, the resolver that always times out
  and two retries.
\<close>

theorem resolve_domain_retry_budget_witness:
  "fair round_robin
   \<and> (\<exists>r. resolve_domain always_fails round_robin unreachable_host {} 2 0 [] = Some r
         \<and> \<not> ok r
         \<and> length (selections r) = 3
         \<and> distinct (selections r)
         \<and> set (selections r) \<subseteq> set PUBLIC_DNS_SERVERS
         \<and> blacklist r = set (butlast (selections r))
         \<and> card (blacklist r) = 2
         \<and> ip_or_err r = ''The resolution lifetime expired'')"
proof -
  have fails: "\<forall>ns. \<exists>e. always_fails ns unreachable_host = Inl e"
    by (simp add: always_fails_def)
  have budget: "(0::int) \<le> 2" "(2::int) + 1 \<le> int (length PUBLIC_DNS_SERVERS)"
    by (simp_all add: pool_length)
  from resolve_domain_retry_budget [of round_robin always_fails unreachable_host 2 0]
    fair_round_robin fails budget
  obtain r where r: "resolve_domain always_fails round_robin unreachable_host {} 2 0 [] = Some r"
    "\<not> ok r" "length (selections r) = nat 2 + 1" "distinct (selections r)"
    "set (selections r) \<subseteq> set PUBLIC_DNS_SERVERS" "blacklist r = set (butlast (selections r))"
    "card (blacklist r) = nat 2"
    "\<exists>e. always_fails (last (selections r)) unreachable_host = Inl e
         \<and> ip_or_err r = parse_dns_error e"
    by blast
  from r(8) have "ip_or_err r = ''The resolution lifetime expired''"
    by (simp add: always_fails_def parse_dns_error_def)
  with r fair_round_robin show ?thesis by auto
qed

text \<open>
  Claim C3 as stated, for every retry budget, fails at \<open>N = 7\<close>: the pool has seven
  resolvers, so an eighth distinct selection does not exist.  After seven failures all
  seven are blacklisted and the selection loop of the eighth attempt draws forever: the
  call does not return.
\<close>

theorem resolve_domain_budget_7_counterexample:
  "resolve_domain always_fails round_robin unreachable_host {} 7 0 [] = None"
proof (rule resolve_domain_exhausts [where m = 7 and res = always_fails
      and domain = unreachable_host])
  show "\<forall>ns. \<exists>e. always_fails ns unreachable_host = Inl e"
    by (simp add: always_fails_def)
  show "card (set PUBLIC_DNS_SERVERS - {}) \<le> 7"
    by (simp add: pool_card)
  show "int 7 \<le> 7" by simp
qed

lemma first_call:
  "resolve_domain always_fails round_robin unreachable_host {} 6 0 []
   = Some \<lparr>ok = False, ip_or_err = ''The resolution lifetime expired'',
           blacklist = {''8.8.8.8'', ''8.8.4.4'', ''1.1.1.1'', ''9.9.9.9'', ''1.0.0.1'',
                        ''208.67.222.222''},
           selections = PUBLIC_DNS_SERVERS, rng_pos = 7\<rparr>"
  by (simp add: dns_eval insert_commute)

lemma second_call:
  "resolve_domain always_fails round_robin unreachable_host
     {''8.8.8.8'', ''8.8.4.4'', ''1.1.1.1'', ''9.9.9.9'', ''1.0.0.1'', ''208.67.222.222''} 6 7 []
   = None"
proof (rule resolve_domain_exhausts [where m = 1 and res = always_fails
      and domain = unreachable_host])
  show "\<forall>ns. \<exists>e. always_fails ns unreachable_host = Inl e"
    by (simp add: always_fails_def)
  show "card (set PUBLIC_DNS_SERVERS
          - {''8.8.8.8'', ''8.8.4.4'', ''1.1.1.1'', ''9.9.9.9'', ''1.0.0.1'', ''208.67.222.222''}) \<le> 1"
    by (simp add: PUBLIC_DNS_SERVERS_def)
  show "int 1 \<le> 6" by simp
qed

lemma str_option_unreachable_host: "str_option unreachable_host = ''unreachable.example''"
  by (simp add: str_option_def unreachable_host_def)

text \<open>
  Claim C2 does not hold for the code.  \<open>download_image\<close> passes no blacklist, so
  \<open>resolve_domain\<close> works on the one set object of its default argument, and what a call
  adds to it is there for the next call.  With six retries and a host that does not
  resolve, the first call returns its error and leaves six resolvers blacklisted; the
  second call then blacklists the seventh after its first failure and never returns.
\<close>

theorem default_blacklist_survives_download_image:
  "download_image unreachable_net (0, unreachable_url) 10 None None (Some always_fails) 6
     \<lparr>default_dns_blacklist = {}, rng = 0\<rparr>
   = Some ((0, None,
            Some ''DNS resolution failed: The resolution lifetime expired for unreachable.example''),
           \<lparr>default_dns_blacklist =
              {''8.8.8.8'', ''8.8.4.4'', ''1.1.1.1'', ''9.9.9.9'', ''1.0.0.1'', ''208.67.222.222''},
            rng = 7\<rparr>)
   \<and> download_image unreachable_net (1, unreachable_url) 10 None None (Some always_fails) 6
       \<lparr>default_dns_blacklist =
          {''8.8.8.8'', ''8.8.4.4'', ''1.1.1.1'', ''9.9.9.9'', ''1.0.0.1'', ''208.67.222.222''},
        rng = 7\<rparr>
     = None"
  by (simp add: download_image_def download_image_try_def resolve_block_def
      resolve_domain_default_def unreachable_net_def first_call second_call
      str_option_unreachable_host)

section \<open>Fetching one image\<close>

lemma resolve_block_success:
  assumes "urlparse_hostname net url0 = Inr host"
    and "resolve_domain_default res (random_source net) host n p = Some ((True, ip), q)"
    and "ip \<noteq> []"
  shows "resolve_block net key url0 (Some res) n p
         = Some (case host of
                   None \<Rightarrow> Raise (TypeError ''replace() argument 1 must be str, not None'')
                 | Some d \<Rightarrow> Locals \<lparr>local_url = str_replace url0 d ip,
                                       local_domain = Some host\<rparr>, q)"
  using assms by (simp add: resolve_block_def split: option.splits)

text \<open>
  Claim C10.  Take a row whose URL has the host name \<open>host\<close>, and two runs of
  \<open>download_image\<close> on the same network whose resolutions both succeed, with any two IP
  addresses (non-empty strings).  Both runs hand the same request to \<open>urlopen\<close>, for the
  original URL with the host name in the Host header, and both return the same triple.
\<close>

theorem resolved_ip_never_requested:
  assumes "urlparse_hostname net (snd row) = Inr host"
    and "resolve_domain_default res1 (random_source net) host n1 p1 = Some ((True, ip1), q1)"
    and "resolve_domain_default res2 (random_source net) host n2 p2 = Some ((True, ip2), q2)"
    and "ip1 \<noteq> []" and "ip2 \<noteq> []"
  shows "issued_request net row user_agent_token (Some res1) n1 p1
           = issued_request net row user_agent_token (Some res2) n2 p2
         \<and> issued_request net row user_agent_token (Some res1) n1 p1
           = map_option (\<lambda>d. \<lparr>full_url = snd row,
                headers = [(''User-Agent'', Some (user_agent_string user_agent_token)),
                           (''Host'', Some d)]\<rparr>) host
         \<and> map_option fst (download_image net row timeout user_agent_token
               disallowed_header_directives (Some res1) n1 p1)
           = map_option fst (download_image net row timeout user_agent_token
               disallowed_header_directives (Some res2) n2 p2)"
proof -
  note b1 = resolve_block_success [OF assms(1,2,4), of "fst row"]
  note b2 = resolve_block_success [OF assms(1,3,5), of "fst row"]
  show ?thesis
  proof (cases host)
    case None
    with b1 b2 show ?thesis
      by (simp add: issued_request_def download_image_def download_image_try_def)
  next
    case (Some d)
    with b1 b2 show ?thesis
      by (simp add: issued_request_def download_image_def download_image_try_def
          build_request_def split: sum.splits prod.splits)
  qed
qed

lemma answers_round_robin:
  "resolve_domain_default (answers ip) round_robin (Some ''example.com'') 0
     \<lparr>default_dns_blacklist = {}, rng = 0\<rparr>
   = Some ((True, ip), \<lparr>default_dns_blacklist = {}, rng = 1\<rparr>)"
  by (simp add: resolve_domain_default_def resolve_domain.simps select_dns_server_fresh
      answers_def)

lemma answers_resolution:
  "resolve_domain_default (answers ip) (random_source example_net) (Some ''example.com'') 0
     \<lparr>default_dns_blacklist = {}, rng = 0\<rparr>
   = Some ((True, ip), \<lparr>default_dns_blacklist = {}, rng = 1\<rparr>)"
  by (simp add: resolve_domain_default_def resolve_domain.simps select_dns_server_fresh
      answers_def example_net_def)

text \<open>
  The hypotheses of C10 hold on the example network for two resolvers that answer with
  different addresses; the image is served although neither address is ever requested.
\<close>

theorem resolved_ip_never_requested_witness:
  "issued_request example_net (0, example_url) None (Some (answers ''93.184.216.34'')) 0
       \<lparr>default_dns_blacklist = {}, rng = 0\<rparr>
     = issued_request example_net (0, example_url) None (Some (answers ''10.0.0.1'')) 0
         \<lparr>default_dns_blacklist = {}, rng = 0\<rparr>
   \<and> issued_request example_net (0, example_url) None (Some (answers ''93.184.216.34'')) 0
       \<lparr>default_dns_blacklist = {}, rng = 0\<rparr>
     = Some \<lparr>full_url = example_url,
             headers = [(''User-Agent'', Some (user_agent_string None)),
                        (''Host'', Some ''example.com'')]\<rparr>
   \<and> map_option fst (download_image example_net (0, example_url) 10 None None
         (Some (answers ''93.184.216.34'')) 0 \<lparr>default_dns_blacklist = {}, rng = 0\<rparr>)
     = map_option fst (download_image example_net (0, example_url) 10 None None
         (Some (answers ''10.0.0.1'')) 0 \<lparr>default_dns_blacklist = {}, rng = 0\<rparr>)
   \<and> map_option fst (download_image example_net (0, example_url) 10 None None
         (Some (answers ''10.0.0.1'')) 0 \<lparr>default_dns_blacklist = {}, rng = 0\<rparr>)
     = Some (0, Some ''JFIF'', None)"
proof -
  have host: "urlparse_hostname example_net (snd (0::int, example_url)) = Inr (Some ''example.com'')"
    by (simp add: example_net_def)
  have ips: "''93.184.216.34'' \<noteq> []" "''10.0.0.1'' \<noteq> []" by simp_all
  note t = resolved_ip_never_requested
    [OF host answers_resolution answers_resolution ips, of None 10 None]
  have dl: "download_image example_net (0, example_url) 10 None None
         (Some (answers ''10.0.0.1'')) 0 \<lparr>default_dns_blacklist = {}, rng = 0\<rparr>
       = Some ((0, Some ''JFIF'', None), \<lparr>default_dns_blacklist = {}, rng = 1\<rparr>)"
    by (simp add: download_image_def download_image_try_def resolve_block_def
        answers_round_robin build_request_def fetch_def example_net_def)
  note t1 = t [THEN conjunct1] and t2 = t [THEN conjunct2, THEN conjunct1]
    and t3 = t [THEN conjunct2, THEN conjunct2]
  from t2 have req: "issued_request example_net (0, example_url) None
       (Some (answers ''93.184.216.34'')) 0 \<lparr>default_dns_blacklist = {}, rng = 0\<rparr>
     = Some \<lparr>full_url = example_url,
             headers = [(''User-Agent'', Some (user_agent_string None)),
                        (''Host'', Some ''example.com'')]\<rparr>"
    by simp
  from dl have out: "map_option fst (download_image example_net (0, example_url) 10 None None
         (Some (answers ''10.0.0.1'')) 0 \<lparr>default_dns_blacklist = {}, rng = 0\<rparr>)
     = Some (0, Some ''JFIF'', None)"
    by simp
  from t1 t3 req out show ?thesis
    by (simp only: snd_conv fst_conv simp_thms)
qed

section \<open>Thread-shared merge cache\<close>

text \<open>
  Claim C5.  Whatever the cache holds and whatever \<open>new_data\<close> is, after \<open>merge\<close> every
  key that was present keeps its value, the keys are the union of the old and the new
  keys, and a key that was absent gets its value from \<open>new_data\<close>.
\<close>

theorem GlobalCache_merge_first_writer_wins:
  "(\<forall>k \<in> dom (data self). data (GlobalCache_merge self new_data) k = data self k)
   \<and> dom (data (GlobalCache_merge self new_data)) = dom (data self) \<union> dom new_data
   \<and> (\<forall>k. k \<notin> dom (data self) \<longrightarrow> data (GlobalCache_merge self new_data) k = new_data k)"
proof (intro conjI ballI allI impI)
  fix k
  assume "k \<in> dom (data self)"
  then show "data (GlobalCache_merge self new_data) k = data self k"
    by (auto simp add: GlobalCache_merge_def map_add_def restrict_map_def split: option.splits)
next
  show "dom (data (GlobalCache_merge self new_data)) = dom (data self) \<union> dom new_data"
    by (auto simp add: GlobalCache_merge_def)
next
  fix k
  assume "k \<notin> dom (data self)"
  then show "data (GlobalCache_merge self new_data) k = new_data k"
    by (auto simp add: GlobalCache_merge_def map_add_def restrict_map_def domIff split: option.splits)
qed

theorem GlobalCache_merge_first_writer_wins_witness:
  "data (GlobalCache_merge \<lparr>data = [''a.com'' \<mapsto> ''1.1.1.1'']\<rparr>
           [''a.com'' \<mapsto> ''2.2.2.2'', ''b.org'' \<mapsto> ''3.3.3.3'']) ''a.com'' = Some ''1.1.1.1''
   \<and> dom (data (GlobalCache_merge \<lparr>data = [''a.com'' \<mapsto> ''1.1.1.1'']\<rparr>
           [''a.com'' \<mapsto> ''2.2.2.2'', ''b.org'' \<mapsto> ''3.3.3.3''])) = {''a.com'', ''b.org''}
   \<and> data (GlobalCache_merge \<lparr>data = [''a.com'' \<mapsto> ''1.1.1.1'']\<rparr>
           [''a.com'' \<mapsto> ''2.2.2.2'', ''b.org'' \<mapsto> ''3.3.3.3'']) ''b.org'' = Some ''3.3.3.3''"
  using GlobalCache_merge_first_writer_wins
    [of "\<lparr>data = [''a.com'' \<mapsto> ''1.1.1.1'']\<rparr>"
        "[''a.com'' \<mapsto> ''2.2.2.2'', ''b.org'' \<mapsto> ''3.3.3.3'']"]
  by auto

section \<open>Remote LRU cache\<close>

lemma cache_key_not_lru_list: "generate_cache_key key \<noteq> ''lru_list''"
proof
  assume eq: "generate_cache_key key = ''lru_list''"
  obtain name rdtype rdclass where "key = (name, rdtype, rdclass)"
    by (cases key)
  then have "CHR '':'' \<in> set (generate_cache_key key)"
    by (simp add: generate_cache_key_def)
  with eq show False by simp
qed

lemma lru_list_ok_cases:
  assumes "lru_list_ok db"
  obtains "db ''lru_list'' = None" "lru_list db = []"
  | xs where "db ''lru_list'' = Some (RList xs)" "lru_list db = xs"
  using assms
  by (auto simp add: lru_list_ok_def lru_list_def split: option.splits redis_value.splits)

lemma lru_list_update: "k \<noteq> ''lru_list'' \<Longrightarrow> lru_list (db(k := v)) = lru_list db"
  by (simp add: lru_list_def)

lemma lru_list_ok_update: "k \<noteq> ''lru_list'' \<Longrightarrow> lru_list_ok (db(k := v)) = lru_list_ok db"
  by (simp add: lru_list_ok_def)

lemma touch_recency:
  assumes "lru_list_ok db"
  shows "\<exists>db1. redis_lrem_all db ''lru_list'' k = Inr db1
           \<and> redis_lpush db1 ''lru_list'' k
               = Inr (db(''lru_list'' \<mapsto> RList (k # filter (\<lambda>y. y \<noteq> k) (lru_list db))))"
  using assms
proof (cases rule: lru_list_ok_cases)
  case 1
  then show ?thesis
    by (simp add: redis_lrem_all_def redis_lpush_def)
next
  case (2 xs)
  then show ?thesis
    by (simp add: redis_lrem_all_def redis_lpush_def Let_def)
qed

lemma put_result:
  assumes "lru_list_ok (conn self)"
  shows "LRUCacheRedis_put dumps self key v
    = (None, self\<lparr>conn := (conn self)(generate_cache_key key \<mapsto> RString (dumps v),
         ''lru_list'' \<mapsto> RList (generate_cache_key key
            # filter (\<lambda>y. y \<noteq> generate_cache_key key) (lru_list (conn self))))\<rparr>)"
proof -
  let ?k = "generate_cache_key key"
  let ?db1 = "(conn self)(?k \<mapsto> RString (dumps v))"
  have k: "?k \<noteq> ''lru_list''" by (rule cache_key_not_lru_list)
  have ok1: "lru_list_ok ?db1"
    using assms k by (simp add: lru_list_ok_update)
  have l1: "lru_list ?db1 = lru_list (conn self)"
    using k by (simp add: lru_list_update)
  from touch_recency [OF ok1, of ?k] obtain db2 where
    "redis_lrem_all ?db1 ''lru_list'' ?k = Inr db2"
    "redis_lpush db2 ''lru_list'' ?k
       = Inr (?db1(''lru_list'' \<mapsto> RList (?k # filter (\<lambda>y. y \<noteq> ?k) (lru_list ?db1))))"
    by blast
  then show ?thesis
    unfolding l1 by (simp add: LRUCacheRedis_put_def Let_def redis_set_def)
qed

lemma get_hit:
  assumes "lru_list_ok (conn self)"
    and "conn self (generate_cache_key key) = Some (RString b)" and "loads b = Inr a"
  shows "LRUCacheRedis_get loads self key
    = (Inr (Some a), self\<lparr>conn := (conn self)(''lru_list'' \<mapsto> RList (generate_cache_key key
            # filter (\<lambda>y. y \<noteq> generate_cache_key key) (lru_list (conn self)))),
          hits := hits self + 1\<rparr>)"
proof -
  let ?k = "generate_cache_key key"
  from touch_recency [OF assms(1), of ?k] obtain db1 where
    "redis_lrem_all (conn self) ''lru_list'' ?k = Inr db1"
    "redis_lpush db1 ''lru_list'' ?k
       = Inr ((conn self)(''lru_list'' \<mapsto> RList (?k # filter (\<lambda>y. y \<noteq> ?k) (lru_list (conn self)))))"
    by blast
  with assms(2,3) show ?thesis
    by (simp add: LRUCacheRedis_get_def Let_def redis_get_def)
qed

lemma get_miss:
  assumes "conn self (generate_cache_key key) = None"
  shows "LRUCacheRedis_get loads self key = (Inr None, self\<lparr>misses := misses self + 1\<rparr>)"
  using assms by (simp add: LRUCacheRedis_get_def Let_def redis_get_def)

lemma lrem_removes:
  assumes "lru_list_ok db"
  shows "\<exists>db1. redis_lrem_all db ''lru_list'' k = Inr db1
           \<and> lru_list db1 = filter (\<lambda>y. y \<noteq> k) (lru_list db)
           \<and> (\<forall>j. j \<noteq> ''lru_list'' \<longrightarrow> db1 j = db j)"
  using assms
proof (cases rule: lru_list_ok_cases)
  case 1
  then show ?thesis
    by (simp add: redis_lrem_all_def)
next
  case (2 xs)
  then show ?thesis
    by (simp add: redis_lrem_all_def Let_def lru_list_def)
qed

lemma flush_key:
  assumes "lru_list_ok (conn self)"
  shows "fst (LRUCacheRedis_flush self (Some key)) = None
    \<and> conn (snd (LRUCacheRedis_flush self (Some key))) (generate_cache_key key) = None
    \<and> generate_cache_key key \<notin> set (lru_list (conn (snd (LRUCacheRedis_flush self (Some key)))))"
proof -
  let ?k = "generate_cache_key key"
  let ?db1 = "(conn self)(?k := None)"
  have k: "?k \<noteq> ''lru_list''" by (rule cache_key_not_lru_list)
  have ok1: "lru_list_ok ?db1"
    using assms k by (simp add: lru_list_ok_update)
  from lrem_removes [OF ok1, of ?k] obtain db2 where db2:
    "redis_lrem_all ?db1 ''lru_list'' ?k = Inr db2"
    "lru_list db2 = filter (\<lambda>y. y \<noteq> ?k) (lru_list ?db1)"
    "\<forall>j. j \<noteq> ''lru_list'' \<longrightarrow> db2 j = ?db1 j"
    by blast
  from db2(1) have f: "LRUCacheRedis_flush self (Some key) = (None, self\<lparr>conn := db2\<rparr>)"
    by (simp add: LRUCacheRedis_flush_def Let_def redis_delete_def)
  from db2(3) k have "db2 ?k = None" by simp
  moreover from db2(2) have "?k \<notin> set (lru_list db2)" by simp
  ultimately show ?thesis by (simp add: f)
qed

lemma flush_all:
  "LRUCacheRedis_flush self None = (None, self\<lparr>conn := Map.empty\<rparr>)"
  by (simp add: LRUCacheRedis_flush_def redis_flushdb_def)

lemma lru_list_empty: "lru_list Map.empty = []"
  by (simp add: lru_list_def)

text \<open>
  Claim C6.  Let \<open>loads\<close> undo \<open>dumps\<close>, and let the key \<open>lru_list\<close> of the store hold a
  list or nothing, as it does when only the cache writes it.  Then \<open>put\<close> succeeds and
  \<open>get\<close> of the same key right after it returns the value that was put; \<open>get\<close> of a key
  absent from the store returns absent and adds one to the miss counter, changing nothing
  else; \<open>get\<close> of a key whose stored bytes deserialise returns the value, adds one to the
  hit counter, leaves the miss counter, and puts the key at the front of the recency list,
  once; \<open>flush\<close> of a key leaves it neither in the store nor in the recency list; \<open>flush\<close>
  without a key leaves the store and the recency list empty.
\<close>

theorem LRUCacheRedis_get_put_flush:
  assumes "\<forall>v. loads (dumps v) = Inr v" and "lru_list_ok (conn self)"
  shows "fst (LRUCacheRedis_put dumps self key v) = None
         \<and> fst (LRUCacheRedis_get loads (snd (LRUCacheRedis_put dumps self key v)) key)
             = Inr (Some v)
         \<and> (conn self (generate_cache_key k_miss) = None \<longrightarrow>
              LRUCacheRedis_get loads self k_miss
                = (Inr None, self\<lparr>misses := misses self + 1\<rparr>))
         \<and> (conn self (generate_cache_key k_hit) = Some (RString b) \<and> loads b = Inr a \<longrightarrow>
              fst (LRUCacheRedis_get loads self k_hit) = Inr (Some a)
              \<and> hits (snd (LRUCacheRedis_get loads self k_hit)) = hits self + 1
              \<and> misses (snd (LRUCacheRedis_get loads self k_hit)) = misses self
              \<and> lru_list (conn (snd (LRUCacheRedis_get loads self k_hit)))
                  = generate_cache_key k_hit
                    # filter (\<lambda>y. y \<noteq> generate_cache_key k_hit) (lru_list (conn self)))
         \<and> fst (LRUCacheRedis_flush self (Some k_flush)) = None
         \<and> conn (snd (LRUCacheRedis_flush self (Some k_flush))) (generate_cache_key k_flush)
             = None
         \<and> generate_cache_key k_flush
              \<notin> set (lru_list (conn (snd (LRUCacheRedis_flush self (Some k_flush)))))
         \<and> conn (snd (LRUCacheRedis_flush self None)) = Map.empty
         \<and> lru_list (conn (snd (LRUCacheRedis_flush self None))) = []"
proof -
  let ?k = "generate_cache_key key"
  note put = put_result [OF assms(2), of dumps key v]
  let ?self1 = "snd (LRUCacheRedis_put dumps self key v)"
  have ok1: "lru_list_ok (conn ?self1)"
    by (simp add: put lru_list_ok_def)
  have stored: "conn ?self1 ?k = Some (RString (dumps v))"
    using cache_key_not_lru_list [of key] by (simp add: put)
  from assms(1) have "loads (dumps v) = Inr v" by simp
  with ok1 stored have "fst (LRUCacheRedis_get loads ?self1 key) = Inr (Some v)"
    by (simp add: get_hit)
  moreover have "fst (LRUCacheRedis_put dumps self key v) = None"
    by (simp add: put)
  moreover have "conn self (generate_cache_key k_miss) = None \<longrightarrow>
      LRUCacheRedis_get loads self k_miss = (Inr None, self\<lparr>misses := misses self + 1\<rparr>)"
    by (simp add: get_miss)
  moreover have "conn self (generate_cache_key k_hit) = Some (RString b) \<and> loads b = Inr a \<longrightarrow>
      fst (LRUCacheRedis_get loads self k_hit) = Inr (Some a)
      \<and> hits (snd (LRUCacheRedis_get loads self k_hit)) = hits self + 1
      \<and> misses (snd (LRUCacheRedis_get loads self k_hit)) = misses self
      \<and> lru_list (conn (snd (LRUCacheRedis_get loads self k_hit)))
          = generate_cache_key k_hit
            # filter (\<lambda>y. y \<noteq> generate_cache_key k_hit) (lru_list (conn self))"
    using assms(2) by (auto simp add: get_hit lru_list_def)
  moreover note flush_key [OF assms(2), of k_flush]
  moreover have "conn (snd (LRUCacheRedis_flush self None)) = Map.empty"
    "lru_list (conn (snd (LRUCacheRedis_flush self None))) = []"
    by (simp_all add: flush_all lru_list_empty)
  ultimately show ?thesis by blast
qed

lemma example_keys:
  "generate_cache_key (''example.com.'', 1, 1) = ''example.com.:1:1''"
  "generate_cache_key (''absent.example.'', 1, 1) = ''absent.example.:1:1''"
  "generate_cache_key (''new.example.'', 1, 1) = ''new.example.:1:1''"
  by (simp_all add: generate_cache_key_def format_0d_def zero_pad_def digits.simps digit_char_def)

text \<open>
  The hypotheses of C6 hold for the example cache with the identity as serialisation: one
  key is absent, one is present, and the recency list is a list.
\<close>

theorem LRUCacheRedis_get_put_flush_witness:
  "lru_list_ok (conn example_cache)
   \<and> conn example_cache (generate_cache_key (''absent.example.'', 1, 1)) = None
   \<and> conn example_cache (generate_cache_key (''example.com.'', 1, 1))
       = Some (RString ''93.184.216.34'')
   \<and> fst (LRUCacheRedis_get Inr
        (snd (LRUCacheRedis_put (\<lambda>v. v) example_cache (''new.example.'', 1, 1) ''10.0.0.1''))
        (''new.example.'', 1, 1)) = Inr (Some ''10.0.0.1'')
   \<and> LRUCacheRedis_get Inr example_cache (''absent.example.'', 1, 1)
       = (Inr None, example_cache\<lparr>misses := misses example_cache + 1\<rparr>)
   \<and> fst (LRUCacheRedis_get Inr example_cache (''example.com.'', 1, 1))
       = Inr (Some ''93.184.216.34'')
   \<and> hits (snd (LRUCacheRedis_get Inr example_cache (''example.com.'', 1, 1))) = 1
   \<and> lru_list (conn (snd (LRUCacheRedis_get Inr example_cache (''example.com.'', 1, 1))))
       = [''example.com.:1:1'', ''old.example.:1:1'']
   \<and> conn (snd (LRUCacheRedis_flush example_cache (Some (''example.com.'', 1, 1))))
        ''example.com.:1:1'' = None
   \<and> ''example.com.:1:1''
        \<notin> set (lru_list (conn (snd (LRUCacheRedis_flush example_cache
                                         (Some (''example.com.'', 1, 1))))))
   \<and> lru_list (conn (snd (LRUCacheRedis_flush example_cache None))) = []"
proof -
  have rt: "\<forall>v::string. Inr (v) = (Inr v :: error + string)" by simp
  have ok: "lru_list_ok (conn example_cache)"
    by (simp add: lru_list_ok_def example_cache_def)
  have miss: "conn example_cache (generate_cache_key (''absent.example.'', 1, 1)) = None"
    by (simp add: example_keys example_cache_def)
  have hit: "conn example_cache (generate_cache_key (''example.com.'', 1, 1))
       = Some (RString ''93.184.216.34'')"
    by (simp add: example_keys example_cache_def)
  have old: "lru_list (conn example_cache) = [''old.example.:1:1'', ''example.com.:1:1'']"
    by (simp add: lru_list_def example_cache_def)
  have h0: "hits example_cache = 0"
    by (simp add: example_cache_def)
  note t = LRUCacheRedis_get_put_flush
    [of Inr "\<lambda>v. v" example_cache "(''new.example.'', 1, 1)" "''10.0.0.1''"
        "(''absent.example.'', 1, 1)" "(''example.com.'', 1, 1)" "''93.184.216.34''"
        "''93.184.216.34''" "(''example.com.'', 1, 1)", OF rt ok]
  from t miss hit ok show ?thesis
    by (simp add: example_keys old h0 lru_list_empty)
qed

section \<open>Processing one shard\<close>

subsection \<open>Every item gives its unit back\<close>

text \<open>
  Each of the \<open>continue\<close> branches of the loop body calls \<open>semaphore.release()\<close> itself;
  the other paths, an exception caught by \<open>except Exception\<close> included, reach the release
  at the end of the body.  So one iteration releases exactly one unit, whatever the
  outcome handed to it.
\<close>

lemma write_and_continue_released:
  "write_and_continue c loc sample_data str_key meta st = (x, st')
   \<Longrightarrow> x \<noteq> Fallthrough \<and> released st' = released st + (if x = Continue then 1 else 0)
       \<and> successes st' = successes st"
  by (auto simp add: write_and_continue_def split: sum.splits option.splits)

lemma write_success_released:
  "write_success self c loc sample_data str_key meta bytes r st = (x, st')
   \<Longrightarrow> x \<noteq> Continue \<and> released st' = released st"
  by (auto simp add: write_success_def Let_def split: sum.splits option.splits)

lemma resize_and_write_released:
  "resize_and_write self c loc sample_data str_key meta img_stream st = (x, st')
   \<Longrightarrow> released st' = released st + (if x = Continue then 1 else 0)"
  by (auto simp add: resize_and_write_def split: sum.splits option.splits
      dest: write_and_continue_released write_success_released)

lemma item_try_released:
  "item_try self c loc outcome st = (x, st')
   \<Longrightarrow> released st' = released st + (if x = Continue then 1 else 0)"
  by (auto simp add: item_try_def Let_def split: sum.splits option.splits bool.splits
      dest: write_and_continue_released resize_and_write_released)

lemma process_item_released:
  "released (process_item self c loc outcome st) = released st + 1"
proof (cases "item_try self c loc outcome st")
  case (Pair x st')
  then show ?thesis
    using item_try_released [OF Pair]
    by (cases x) (simp_all add: process_item_def)
qed

subsection \<open>Backpressure\<close>

text \<open>
  The invariant of the pipeline: the units taken and not yet given back are the items in
  flight, the semaphore is never negative, and every item is either pending or has
  been yielded.
\<close>

lemma pipeline_step_invariant:
  assumes "pipeline_step self c loc ev s = Some s'"
    and "acquired s - released (consumer s) = int (length (in_flight s))"
    and "0 \<le> semaphore_value self s"
    and "acquired s + int (length (pending s)) = n"
  shows "acquired s' - released (consumer s') = int (length (in_flight s'))
         \<and> 0 \<le> semaphore_value self s'
         \<and> acquired s' + int (length (pending s')) = n"
proof (cases ev)
  case Yield
  with assms show ?thesis
    by (auto simp add: semaphore_value_def split: list.splits if_splits)
next
  case (Finish i img_stream error_message)
  with assms have i: "i < length (in_flight s)"
    and s': "s' = s\<lparr>in_flight := take i (in_flight s) @ drop (Suc i) (in_flight s),
                    consumer := process_item self c loc
                      (fst (in_flight s ! i), img_stream, error_message) (consumer s)\<rparr>"
    by (auto split: if_splits)
  from i have "length (take i (in_flight s) @ drop (Suc i) (in_flight s)) = length (in_flight s) - 1"
    by simp
  with i assms(2,3,4) show ?thesis
    by (simp add: s' semaphore_value_def process_item_released del: length_append)
qed

lemma pipeline_run_invariant:
  "pipeline_run self c loc events s = Some s'
   \<Longrightarrow> acquired s - released (consumer s) = int (length (in_flight s))
   \<Longrightarrow> 0 \<le> semaphore_value self s
   \<Longrightarrow> acquired s + int (length (pending s)) = n
   \<Longrightarrow> acquired s' - released (consumer s') = int (length (in_flight s'))
       \<and> 0 \<le> semaphore_value self s'
       \<and> acquired s' + int (length (pending s')) = n"
proof (induction events arbitrary: s)
  case Nil
  then show ?case by simp
next
  case (Cons ev events)
  from Cons.prems(1) obtain s1 where step: "pipeline_step self c loc ev s = Some s1"
    and run: "pipeline_run self c loc events s1 = Some s'"
    by (auto split: option.splits)
  from pipeline_step_invariant [OF step Cons.prems(2,3,4)]
  show ?case
    using Cons.IH [OF run] by blast
qed

text \<open>
  The semaphore exists only for a non-negative \<open>thread_count\<close>: the constructor raises
  otherwise, and so does the thread pool for fewer than one worker, before any item is
  yielded.
\<close>

lemma shard_setup_thread_count:
  "shard_setup self env row = Inr (loc, key_url_list) \<Longrightarrow> 1 \<le> thread_count self"
  by (auto simp add: shard_setup_def Let_def split: sum.splits option.splits if_splits)

text \<open>
  Claim C1.  Take any shard and any interleaving of the generator's yields with the
  completions of the workers, in any order of the items and with any payload or error
  message, that the semaphore admits.  In the state reached, the number of items yielded
  and not yet finished is at most \<open>2 * thread_count\<close>; it is the number of units acquired
  less the number released, one unit having been acquired for each item yielded; and
  the loop body releases exactly one unit for every outcome, on every exit path.
\<close>

theorem in_flight_never_exceeds_twice_thread_count:
  assumes "0 \<le> thread_count self"
    and "pipeline_run self c loc events (initial_pipeline key_url_list) = Some s"
  shows "int (length (in_flight s)) \<le> 2 * thread_count self
         \<and> int (length (in_flight s)) = acquired s - released (consumer s)
         \<and> acquired s = int (length key_url_list) - int (length (pending s))
         \<and> released (process_item self c loc outcome st) = released st + 1"
proof -
  let ?s0 = "initial_pipeline key_url_list"
  have "acquired ?s0 - released (consumer ?s0) = int (length (in_flight ?s0))"
    and "0 \<le> semaphore_value self ?s0"
    and "acquired ?s0 + int (length (pending ?s0)) = int (length key_url_list)"
    using assms(1)
    by (simp_all add: initial_pipeline_def initial_shard_state_def semaphore_value_def)
  from pipeline_run_invariant [OF assms(2) this]
  have inv: "acquired s - released (consumer s) = int (length (in_flight s))"
    "0 \<le> semaphore_value self s"
    "acquired s + int (length (pending s)) = int (length key_url_list)"
    by blast+
  from inv(1,2) have "int (length (in_flight s)) \<le> 2 * thread_count self"
    by (simp add: semaphore_value_def)
  with inv show ?thesis
    by (simp add: process_item_released)
qed

text \<open>
  With one worker the generator yields two items of the example shard; the third is
  yielded only after one of them has finished, and three yields in a row cannot happen.
\<close>

lemma example_run:
  "\<exists>s. pipeline_run example_downloader example_collaborators example_locals
          [Yield, Yield, Finish 0 None (Some ''timed out''), Yield]
          (initial_pipeline [(0, PStr ''http://a.example/1.jpg''),
                             (1, PStr ''http://b.example/2.jpg''),
                             (2, PStr ''http://c.example/3.jpg'')]) = Some s
       \<and> in_flight s = [(1, PStr ''http://b.example/2.jpg''), (2, PStr ''http://c.example/3.jpg'')]
       \<and> pending s = []"
  by (simp add: initial_pipeline_def initial_shard_state_def semaphore_value_def
      example_downloader_def process_item_released)

lemma example_blocked:
  "pipeline_run example_downloader example_collaborators example_locals
          [Yield, Yield, Yield]
          (initial_pipeline [(0, PStr ''http://a.example/1.jpg''),
                             (1, PStr ''http://b.example/2.jpg''),
                             (2, PStr ''http://c.example/3.jpg'')]) = None"
  by (simp add: initial_pipeline_def initial_shard_state_def semaphore_value_def
      example_downloader_def process_item_released)

theorem in_flight_never_exceeds_twice_thread_count_witness:
  "0 \<le> thread_count example_downloader
   \<and> (\<exists>s. pipeline_run example_downloader example_collaborators example_locals
          [Yield, Yield, Finish 0 None (Some ''timed out''), Yield]
          (initial_pipeline [(0, PStr ''http://a.example/1.jpg''),
                             (1, PStr ''http://b.example/2.jpg''),
                             (2, PStr ''http://c.example/3.jpg'')]) = Some s
         \<and> length (in_flight s) = 2
         \<and> int (length (in_flight s)) \<le> 2 * thread_count example_downloader
         \<and> int (length (in_flight s)) = acquired s - released (consumer s)
         \<and> acquired s = 3)"
proof -
  have tc: "0 \<le> thread_count example_downloader"
    by (simp add: example_downloader_def)
  from example_run obtain s where
    run: "pipeline_run example_downloader example_collaborators example_locals
          [Yield, Yield, Finish 0 None (Some ''timed out''), Yield]
          (initial_pipeline [(0, PStr ''http://a.example/1.jpg''),
                             (1, PStr ''http://b.example/2.jpg''),
                             (2, PStr ''http://c.example/3.jpg'')]) = Some s"
    and fl: "in_flight s = [(1, PStr ''http://b.example/2.jpg''), (2, PStr ''http://c.example/3.jpg'')]"
    and pe: "pending s = []"
    by blast
  from in_flight_never_exceeds_twice_thread_count
    [OF tc run, of "(0, None, Some ''timed out'')" initial_shard_state] fl pe
  have "length (in_flight s) = 2
        \<and> int (length (in_flight s)) \<le> 2 * thread_count example_downloader
        \<and> int (length (in_flight s)) = acquired s - released (consumer s)
        \<and> acquired s = 3"
    by simp
  with run tc show ?thesis by blast
qed

subsection \<open>Exceptions stay inside the call\<close>

text \<open>
  When every worker delivers an outcome, the loop is a fold of the loop body over the
  outcomes in the order of delivery, and it releases one unit per outcome.
\<close>

lemma consume_all_delivered:
  "consume self c loc (map Inr outcomes) st
   = (None, foldl (\<lambda>s out. process_item self c loc out s) st outcomes)"
  by (induction outcomes arbitrary: st) simp_all




text \<open>The example shard without DNS resolution, step by step.\<close>

lemma example_setup:
  "shard_setup (ensure_cache_pool example_downloader) example_env (0, ''shard_0.feather'')
   = Inr (example_locals,
          [(0, PStr ''http://a.example/1.jpg''), (1, PStr ''http://b.example/2.jpg''),
           (2, PStr ''http://c.example/3.jpg'')])"
  by (simp add: shard_setup_def ensure_cache_pool_def example_downloader_def example_env_def
      example_locals_def example_rows_def py_index_def)

lemma example_setup_fails:
  "shard_setup (ensure_cache_pool example_downloader) example_env (0, ''missing.feather'')
   = Inl (Raised ''No such file or directory'')"
  by (simp add: shard_setup_def ensure_cache_pool_def example_downloader_def example_env_def)


lemma example_figures:
  "dns_cache_figures (ensure_dns_resolver (ensure_cache_pool example_downloader)) example_env
     (int (length (shard_to_dl example_locals))) = Inr (0, 3, 0)"
  by (simp add: dns_cache_figures_def ensure_dns_resolver_def ensure_cache_pool_def
      example_downloader_def example_locals_def example_rows_def)

lemma example_pool:
  "pool_results example_env
     [(0, PStr ''http://a.example/1.jpg''), (1, PStr ''http://b.example/2.jpg''),
      (2, PStr ''http://c.example/3.jpg'')]
   = map Inr [(1, Some ''JFIF'', None), (0, None, Some ''timed out''), (2, Some ''JFIF'', None)]"
  by (simp add: example_env_def)

lemma initial_shard_state_fields:
  "printed initial_shard_state = []" "released initial_shard_state = 0"
  "written initial_shard_state = []" "successes initial_shard_state = 0"
  by (simp_all add: initial_shard_state_def)























subsection \<open>The DNS figures of the report\<close>

lemma shard_setup_rows:
  "shard_setup self env row = Inr (loc, key_url_list)
   \<Longrightarrow> read_shard env (snd row) = Inr (shard_to_dl loc)"
  by (auto simp add: shard_setup_def Let_def split: sum.splits option.splits if_splits)

lemma download_shard_reported:
  assumes "reported (download_shard self env row) = Some report"
  shows "\<exists>loc key_url_list figures.
           shard_setup (ensure_cache_pool self) env row = Inr (loc, key_url_list)
           \<and> dns_cache_figures (ensure_dns_resolver (ensure_cache_pool self)) env
                (int (length (shard_to_dl loc))) = Inr figures
           \<and> stats_count report = int (length (shard_to_dl loc))
           \<and> dns_cache_hits report = fst figures
           \<and> dns_cache_misses report = fst (snd figures)
           \<and> dns_cache_size report = snd (snd figures)"
proof (cases "shard_setup (ensure_cache_pool self) env row")
  case (Inl e)
  with assms show ?thesis
    by (simp add: download_shard_def)
next
  case (Inr a)
  obtain loc key_url_list where a: "a = (loc, key_url_list)" by (cases a)
  show ?thesis
  proof (cases "dns_cache_figures (ensure_dns_resolver (ensure_cache_pool self)) env
                  (int (length (shard_to_dl loc)))")
    case (Inl e)
    with assms Inr a show ?thesis
      by (simp add: download_shard_def Let_def split: option.splits)
  next
    case figs: (Inr figures)
    obtain h m z where f: "figures = (h, m, z)" by (cases figures)
    from assms Inr a figs f show ?thesis
      by (auto simp add: download_shard_def Let_def split: option.splits)
  qed
qed

text \<open>
  Claim C8, as the code has it.  When DNS resolution is disabled (\<open>use_public_dns\<close> is
  false and no resolver is set), every report handed to \<open>write_stats\<close> has a hit figure of
  zero and a size figure of zero, but its miss figure is the item count of the shard,
  the number of rows read from the shard file: the code initialises
  \<open>dns_cache_misses = count\<close>.
\<close>

theorem stats_report_without_resolver:
  assumes "\<not> use_public_dns self" and "resolver self = None"
    and "reported (download_shard self env row) = Some report"
  shows "dns_cache_hits report = 0
         \<and> dns_cache_size report = 0
         \<and> dns_cache_misses report = stats_count report
         \<and> (\<exists>rows. read_shard env (snd row) = Inr rows
                   \<and> stats_count report = int (length rows))"
proof -
  from assms(1,2) have self: "ensure_cache_pool self = self" "ensure_dns_resolver self = self"
    by (simp_all add: ensure_cache_pool_def ensure_dns_resolver_def)
  from download_shard_reported [OF assms(3)] obtain loc key_url_list figures where
    r: "shard_setup self env row = Inr (loc, key_url_list)"
      "dns_cache_figures self env (int (length (shard_to_dl loc))) = Inr figures"
      "stats_count report = int (length (shard_to_dl loc))"
      "dns_cache_hits report = fst figures"
      "dns_cache_misses report = fst (snd figures)"
      "dns_cache_size report = snd (snd figures)"
    unfolding self by blast
  from r(2) assms(2) have "figures = (0, int (length (shard_to_dl loc)), 0)"
    by (simp add: dns_cache_figures_def)
  moreover from r(1) have "read_shard env (snd row) = Inr (shard_to_dl loc)"
    by (rule shard_setup_rows)
  ultimately show ?thesis
    using r by auto
qed

lemma example_env_fields:
  "sample_writer_close example_env = None" "write_stats example_env report = None"
  "fs_rm example_env file = None"
  by (simp_all add: example_env_def)

lemma example_count: "length (shard_to_dl example_locals) = 3"
  by (simp add: example_locals_def example_rows_def)

lemma example_figures_3:
  "dns_cache_figures (ensure_dns_resolver (ensure_cache_pool example_downloader)) example_env 3
   = Inr (0, 3, 0)"
  using example_figures by (simp add: example_count)

lemma example_reported:
  "map_option dns_cache_misses
     (reported (download_shard example_downloader example_env (0, ''shard_0.feather''))) = Some 3
   \<and> map_option stats_count
     (reported (download_shard example_downloader example_env (0, ''shard_0.feather''))) = Some 3"
  by (simp add: download_shard_def Let_def example_setup example_pool consume_all_delivered
      example_figures_3 example_env_fields example_count)

text \<open>
  The claim as written, with a miss figure of zero, fails on the example shard: DNS
  resolution is disabled, and the report carries a miss figure of 3, the number of
  rows.
\<close>

theorem stats_report_misses_counterexample:
  "\<not> use_public_dns example_downloader
   \<and> resolver example_downloader = None
   \<and> map_option dns_cache_misses
        (reported (download_shard example_downloader example_env (0, ''shard_0.feather'')))
       = Some 3"
  by (simp add: example_reported) (simp add: example_downloader_def)

text \<open>
  The amended statement on the same shard.
\<close>

theorem stats_report_without_resolver_witness:
  "\<not> use_public_dns example_downloader
   \<and> resolver example_downloader = None
   \<and> (\<exists>report. reported (download_shard example_downloader example_env (0, ''shard_0.feather''))
                   = Some report
                 \<and> dns_cache_hits report = 0
                 \<and> dns_cache_size report = 0
                 \<and> dns_cache_misses report = stats_count report
                 \<and> stats_count report = 3)"
proof -
  have off: "\<not> use_public_dns example_downloader" "resolver example_downloader = None"
    by (simp_all add: example_downloader_def)
  from example_reported obtain report where
    rep: "reported (download_shard example_downloader example_env (0, ''shard_0.feather''))
            = Some report"
    and cnt: "stats_count report = 3"
    by auto
  from stats_report_without_resolver [OF off rep] cnt rep off show ?thesis
    by blast
qed

section \<open>Downloading without a resolver\<close>

text \<open>
  With \<open>resolver = None\<close> the block that binds \<open>domain\<close> is skipped, so building the
  header dictionary raises, and \<open>except Exception\<close> turns that into an error triple.
\<close>

lemma download_image_no_resolver:
  "download_image net row timeout user_agent_token disallowed_header_directives None n p
   = Some ((fst row, None, Some (str_of_error (UnboundLocalError ''domain''))), p)"
  by (simp add: download_image_def download_image_try_def resolve_block_def build_request_def
      Let_def)

lemma issued_request_no_resolver:
  "issued_request net row user_agent_token None n p = None"
  by (simp add: issued_request_def resolve_block_def build_request_def)

lemma retry_rounds_no_resolver:
  "retry_rounds k (Some (fst row, None, Some (str_of_error (UnboundLocalError ''domain''))))
     net row timeout user_agent_token disallowed_header_directives None n p
   = Some (Inr (fst row, None, Some (str_of_error (UnboundLocalError ''domain''))), p)"
  by (induction k) (simp_all add: download_image_no_resolver del: str_of_error.simps)

lemma download_image_with_retry_no_resolver:
  "download_image_with_retry net row timeout retries user_agent_token
     disallowed_header_directives None n p
   = Some (if 0 \<le> retries
           then Inr (fst row, None, Some (str_of_error (UnboundLocalError ''domain'')))
           else Inl (UnboundLocalError ''key''), p)"
proof (cases "0 \<le> retries")
  case True
  then obtain k where k: "nat (retries + 1) = Suc k"
    by (cases "nat (retries + 1)") auto
  with True show ?thesis
    by (simp add: download_image_with_retry_def download_image_no_resolver
        retry_rounds_no_resolver del: str_of_error.simps)
next
  case False
  then have "nat (retries + 1) = 0" by simp
  with False show ?thesis
    by (simp add: download_image_with_retry_def)
qed

lemma write_and_continue_written:
  "write_and_continue c loc sample_data str_key meta st = (x, st')
   \<Longrightarrow> successes st' = successes st \<and> x \<noteq> Fallthrough
       \<and> (written st' = written st
            \<or> (\<exists>caption. written st' = written st @ [(None, str_key, caption, meta)]))"
  by (auto simp add: write_and_continue_def split: sum.splits option.splits)

lemma item_try_failed_download:
  assumes "item_try self c loc (key, img_stream, Some msg) st = (x, st')"
  shows "successes st' = successes st
         \<and> x \<noteq> Fallthrough
         \<and> (written st' = written st
             \<or> (\<exists>str_key caption meta.
                   written st' = written st @ [(None, str_key, caption, meta)]
                   \<and> meta ''status'' = Some (PStr ''failed_to_download'')))"
proof (cases "py_index (shard_to_dl loc) key")
  case (Inl e)
  with assms show ?thesis by (auto simp add: item_try_def)
next
  case sd: (Inr sample_data)
  show ?thesis
  proof (cases "compute_key key (shard_id loc) (oom_sample_per_shard loc) (oom_shard_count self)")
    case (Inl e)
    with assms sd show ?thesis by (auto simp add: item_try_def)
  next
    case sk: (Inr str_key)
    show ?thesis
    proof (cases "initial_meta self loc sample_data str_key (Some msg)")
      case (Inl e)
      with assms sd sk show ?thesis by (auto simp add: item_try_def)
    next
      case (Inr meta)
      let ?st1 = "st\<lparr>failed_to_download := failed_to_download st + 1,
                       status_dict := status_dict st @ [msg]\<rparr>"
      let ?meta = "meta(''status'' \<mapsto> PStr ''failed_to_download'')"
      from assms sd sk Inr have
        "write_and_continue c loc sample_data str_key ?meta ?st1 = (x, st')"
        by (simp add: item_try_def)
      from write_and_continue_written [OF this] have
        "successes st' = successes st" "x \<noteq> Fallthrough"
        "written st' = written st
         \<or> (\<exists>caption. written st' = written st @ [(None, str_key, caption, ?meta)])"
        by simp_all
      moreover have "?meta ''status'' = Some (PStr ''failed_to_download'')" by simp
      ultimately show ?thesis by blast
    qed
  qed
qed

lemma process_item_failed_download:
  "successes (process_item self c loc (key, img_stream, Some msg) st) = successes st
   \<and> (written (process_item self c loc (key, img_stream, Some msg) st) = written st
       \<or> (\<exists>str_key caption meta.
             written (process_item self c loc (key, img_stream, Some msg) st)
               = written st @ [(None, str_key, caption, meta)]
             \<and> meta ''status'' = Some (PStr ''failed_to_download'')))"
proof (cases "item_try self c loc (key, img_stream, Some msg) st")
  case (Pair x st')
  from item_try_failed_download [OF Pair] Pair show ?thesis
    by (cases x) (auto simp add: process_item_def)
qed

text \<open>
  Claim C9.  For every row, every network and every value of the other arguments,
  \<open>download_image\<close> with \<open>resolver = None\<close> returns the key of the row with no payload
  and a non-empty error message, the text of the UnboundLocalError for \<open>domain\<close>; no
  request is built, so nothing is fetched.  Retrying does not help: every round of
  \<open>download_image_with_retry\<close> ends the same way.  The loop body of the shard, given
  this outcome, leaves the number of successes unchanged, and what it writes, if
  anything, is a sample without image of status \<open>failed_to_download\<close>.
\<close>

theorem download_image_without_resolver_never_succeeds:
  "download_image net row timeout user_agent_token disallowed_header_directives None n p
     = Some ((fst row, None, Some (str_of_error (UnboundLocalError ''domain''))), p)
   \<and> str_of_error (UnboundLocalError ''domain'') \<noteq> []
   \<and> issued_request net row user_agent_token None n p = None
   \<and> download_image_with_retry net row timeout retries user_agent_token
        disallowed_header_directives None n p
     = Some (if 0 \<le> retries
             then Inr (fst row, None, Some (str_of_error (UnboundLocalError ''domain'')))
             else Inl (UnboundLocalError ''key''), p)
   \<and> successes (process_item self c loc
        (fst row, None, Some (str_of_error (UnboundLocalError ''domain''))) st) = successes st
   \<and> (written (process_item self c loc
         (fst row, None, Some (str_of_error (UnboundLocalError ''domain''))) st) = written st
       \<or> (\<exists>str_key caption meta.
             written (process_item self c loc
               (fst row, None, Some (str_of_error (UnboundLocalError ''domain''))) st)
               = written st @ [(None, str_key, caption, meta)]
             \<and> meta ''status'' = Some (PStr ''failed_to_download'')))"
proof -
  have "str_of_error (UnboundLocalError ''domain'') \<noteq> []"
    by simp
  with download_image_no_resolver [of net row timeout user_agent_token
         disallowed_header_directives n p]
       issued_request_no_resolver [of net row user_agent_token n p]
       download_image_with_retry_no_resolver [of net row timeout retries user_agent_token
         disallowed_header_directives n p]
       process_item_failed_download [of self c loc "fst row" None
         "str_of_error (UnboundLocalError ''domain'')" st]
  show ?thesis
    by (simp only: simp_thms)
qed

text \<open>
  The example network serves the image under the URL of the row; without a resolver
  the call fails all the same, also after two retries.
\<close>

theorem download_image_without_resolver_never_succeeds_witness:
  "download_image example_net (0, example_url) 10 None None None 0
     \<lparr>default_dns_blacklist = {}, rng = 0\<rparr>
     = Some ((0, None, Some (str_of_error (UnboundLocalError ''domain''))),
             \<lparr>default_dns_blacklist = {}, rng = 0\<rparr>)
   \<and> issued_request example_net (0, example_url) None None 0
       \<lparr>default_dns_blacklist = {}, rng = 0\<rparr> = None
   \<and> download_image_with_retry example_net (0, example_url) 10 2 None None None 0
       \<lparr>default_dns_blacklist = {}, rng = 0\<rparr>
     = Some (Inr (0, None, Some (str_of_error (UnboundLocalError ''domain''))),
             \<lparr>default_dns_blacklist = {}, rng = 0\<rparr>)
   \<and> successes (process_item example_downloader example_collaborators example_locals
        (0, None, Some (str_of_error (UnboundLocalError ''domain''))) initial_shard_state) = 0"
  using download_image_without_resolver_never_succeeds
    [of example_net "(0, example_url)" 10 None None 0
        "\<lparr>default_dns_blacklist = {}, rng = 0\<rparr>" 2
        example_downloader example_collaborators example_locals initial_shard_state]
  by (simp add: initial_shard_state_fields del: str_of_error.simps)

end
